theory Spec2Isabelle
  imports Complex_Main "HOL-Library.List_Lexorder" "HOL-Library.Char_ord"
begin

section \<open>JavaScript numbers\<close>

text \<open>
  The time arithmetic of the reservation handler runs on JavaScript numbers, which are
  IEEE 754 doubles: NaN, the two infinities, and the finite doubles, a finite double
  being the rational it denotes. The sign of a zero, which no comparison below
  observes, is not kept. \<open>to_double\<close> rounds a rational to the nearest double, a
  tie to the even significand: 53 bits of significand, the smallest unit
  \<open>2\<^sup>-\<^sup>1\<^sup>0\<^sup>7\<^sup>4\<close>, and infinity from \<open>2\<^sup>1\<^sup>0\<^sup>2\<^sup>4\<close> on.
\<close>

datatype number = NaN | NegInfinity | Finite rat | Infinity

definition pow2 :: "int \<Rightarrow> rat" where
  "pow2 k = (if 0 \<le> k then 2 ^ nat k else 1 / 2 ^ nat (- k))"

function bitlen :: "int \<Rightarrow> int" where
  "bitlen n = (if n \<le> 0 then 0 else 1 + bitlen (n div 2))"
  by pat_completeness auto
termination
  by (relation "measure nat") auto

definition floor_log2 :: "rat \<Rightarrow> int" where
  "floor_log2 a =
     (let (n, d) = quotient_of a;
          k = bitlen n - bitlen d
      in if pow2 k \<le> a then k else k - 1)"

definition round_half_even :: "rat \<Rightarrow> int" where
  "round_half_even x =
     (let f = \<lfloor>x\<rfloor>; r = x - of_int f
      in if r < 1 / 2 then f else if 1 / 2 < r then f + 1
         else if even f then f else f + 1)"

definition to_double :: "rat \<Rightarrow> number" where
  "to_double q =
     (if q = 0 then Finite 0
      else
        let a = \<bar>q\<bar>;
            p = max (floor_log2 a - 52) (- 1074);
            r = of_int (round_half_even (a / pow2 p)) * pow2 p
        in if pow2 1024 \<le> r then (if 0 < q then Infinity else NegInfinity)
           else Finite (if 0 < q then r else - r))"

text \<open>The operators \<^verbatim>\<open>*\<close>, \<^verbatim>\<open>+\<close>, \<^verbatim>\<open>-\<close> and the test \<^verbatim>\<open>x <= 0\<close>.\<close>

fun number_times :: "number \<Rightarrow> number \<Rightarrow> number" where
  "number_times NaN y = NaN"
| "number_times x NaN = NaN"
| "number_times (Finite a) (Finite b) = to_double (a * b)"
| "number_times (Finite a) Infinity =
     (if a = 0 then NaN else if 0 < a then Infinity else NegInfinity)"
| "number_times (Finite a) NegInfinity =
     (if a = 0 then NaN else if 0 < a then NegInfinity else Infinity)"
| "number_times Infinity (Finite b) =
     (if b = 0 then NaN else if 0 < b then Infinity else NegInfinity)"
| "number_times NegInfinity (Finite b) =
     (if b = 0 then NaN else if 0 < b then NegInfinity else Infinity)"
| "number_times Infinity Infinity = Infinity"
| "number_times NegInfinity NegInfinity = Infinity"
| "number_times Infinity NegInfinity = NegInfinity"
| "number_times NegInfinity Infinity = NegInfinity"

fun number_plus :: "number \<Rightarrow> number \<Rightarrow> number" where
  "number_plus NaN y = NaN"
| "number_plus x NaN = NaN"
| "number_plus (Finite a) (Finite b) = to_double (a + b)"
| "number_plus Infinity NegInfinity = NaN"
| "number_plus NegInfinity Infinity = NaN"
| "number_plus Infinity y = Infinity"
| "number_plus NegInfinity y = NegInfinity"
| "number_plus x Infinity = Infinity"
| "number_plus x NegInfinity = NegInfinity"

fun number_negate :: "number \<Rightarrow> number" where
  "number_negate NaN = NaN"
| "number_negate Infinity = NegInfinity"
| "number_negate NegInfinity = Infinity"
| "number_negate (Finite a) = Finite (- a)"

definition number_minus :: "number \<Rightarrow> number \<Rightarrow> number" where
  "number_minus x y = number_plus x (number_negate y)"

fun le_zero :: "number \<Rightarrow> bool" where
  "le_zero NaN = False"
| "le_zero NegInfinity = True"
| "le_zero (Finite a) = (a \<le> 0)"
| "le_zero Infinity = False"

section \<open>Data model\<close>

text \<open>
  The persisted documents of the booking back end, as the Mongoose schemas declare them
  (models Reservation, Room, SignIn). An ObjectId is a natural number, a Date is its
  number of milliseconds since the epoch, a time of day is the string the request
  carries (the schema stores \<^verbatim>\<open>startTime\<close> and \<^verbatim>\<open>endTime\<close> as strings and the
  routes compare them as strings: \<open>\<le>\<close> on \<open>string\<close> is the lexicographic order on
  character codes, as in JavaScript). The \<^verbatim>\<open>createdAt\<close>/\<^verbatim>\<open>updatedAt\<close> stamps and
  the descriptive fields of a room that no route below reads are left out.
\<close>

datatype reservation_status = Pending | Confirmed | Cancelled | Completed | NoShow

datatype occupancy_status = Available | Occupied | Maintenance

datatype signIn_status = SignInActive | SignInCompleted | SignInAbandoned

record Reservation =
  reservation_id :: nat
  user :: nat
  room :: nat
  building :: nat
  reservationDate :: int
  startTime :: string
  endTime :: string
  duration :: number
  purpose :: string
  numberOfPeople :: int
  status :: reservation_status
  cancelReason :: "string option"
  cancelledAt :: "int option"
  cancelledBy :: "nat option"
  "notes" :: string
  checkInTime :: "int option"
  checkOutTime :: "int option"

record Room =
  room_id :: nat
  capacity :: int
  occupancyStatus :: occupancy_status
  currentOccupancy :: int
  lastUpdated :: int

record SignIn =
  signIn_id :: nat
  signIn_user :: nat
  signIn_reservation :: nat
  signIn_room :: nat
  signIn_building :: nat
  signInTime :: int
  signOutTime :: "int option"
  actualDuration :: "int option"
  signIn_notes :: string
  signIn_status :: signIn_status

text \<open>The database: one list of documents per collection; of a building only its id matters.\<close>

record DB =
  reservations :: "Reservation list"
  rooms :: "Room list"
  buildings :: "nat list"
  signIns :: "SignIn list"

text \<open>The identity the authentication middleware attaches to a request.\<close>

record AuthUser =
  userId :: nat
  role :: string

text \<open>
  The responses. The routes answer 400, 404, 403 and 409 with a message, and 500 from the
  \<^verbatim>\<open>catch\<close> block around every handler; these are the specification's ValidationError,
  NotFound, Forbidden and Conflict, and an internal failure. The two capacity messages
  carry numbers.
\<close>

datatype message = Message string | RoomCapacityRequested int int | RoomCapacityIs int

datatype error =
  ValidationError message
  | NotFound message
  | Forbidden message
  | Conflict message
  | InternalError message

section \<open>JavaScript and Mongoose helpers\<close>

text \<open>
  A request field that is absent is modelled by the falsy value of its type: the empty
  string for a string field and 0 for a number; the handlers only test such fields for
  truthiness before they use them. An id or a date field is an option; a date field
  that is present carries the Date that \<^verbatim>\<open>new Date\<close> makes of it.
\<close>

definition truthy_str :: "string \<Rightarrow> bool" where
  "truthy_str s = (s \<noteq> [])"

definition truthy_num :: "int \<Rightarrow> bool" where
  "truthy_num n = (n \<noteq> 0)"

text \<open>\<^verbatim>\<open>a || b\<close> on strings and on numbers.\<close>

definition or_str :: "string \<Rightarrow> string \<Rightarrow> string" where
  "or_str a b = (if truthy_str a then a else b)"

definition or_num :: "int \<Rightarrow> int \<Rightarrow> int" where
  "or_num a b = (if truthy_num a then a else b)"

text \<open>The schema option \<^verbatim>\<open>trim: true\<close>: white space is removed at both ends (ASCII here).\<close>

definition is_space :: "char \<Rightarrow> bool" where
  "is_space c = (c \<in> set [CHR '' '', CHR 0x09, CHR 0x0A, CHR 0x0B, CHR 0x0C, CHR 0x0D])"

definition trim :: "string \<Rightarrow> string" where
  "trim s = rev (dropWhile is_space (rev (dropWhile is_space s)))"

text \<open>
  \<^verbatim>\<open>Math.round(a / b)\<close> for a positive divisor: the nearest integer, a half rounded
  upwards, computed on integers.
\<close>

definition Math_round_div :: "int \<Rightarrow> int \<Rightarrow> int" where
  "Math_round_div a b = (2 * a + b) div (2 * b)"

text \<open>
  \<^verbatim>\<open>Number(s)\<close> on a string, the StringToNumber of ECMAScript: white space is dropped
  at both ends, the empty string is 0; a binary, octal or hexadecimal literal has no
  sign; a decimal literal has an optional sign, digits with an optional point, and an
  optional exponent; \<^verbatim>\<open>Infinity\<close> with an optional sign; every other string is NaN.
  The value is rounded to the nearest double (ECMAScript lets an implementation round a
  literal of more than 20 significant digits from its first 20; the engines round the
  exact value, as here). Strings are ASCII here.
\<close>

definition is_digit :: "char \<Rightarrow> bool" where
  "is_digit c = (CHR ''0'' \<le> c \<and> c \<le> CHR ''9'')"

definition digit_value :: "char \<Rightarrow> int" where
  "digit_value c =
     (if CHR ''0'' \<le> c \<and> c \<le> CHR ''9'' then of_char c - 48
      else if CHR ''a'' \<le> c \<and> c \<le> CHR ''f'' then of_char c - 87
      else if CHR ''A'' \<le> c \<and> c \<le> CHR ''F'' then of_char c - 55
      else 16)"

definition digits_value :: "int \<Rightarrow> string \<Rightarrow> int" where
  "digits_value base s = foldl (\<lambda>a c. base * a + digit_value c) 0 s"

definition non_decimal_literal :: "string \<Rightarrow> int option" where
  "non_decimal_literal s =
     (case s of
        z # x # ds \<Rightarrow>
          (let base = (if x = CHR ''x'' \<or> x = CHR ''X'' then 16
                       else if x = CHR ''o'' \<or> x = CHR ''O'' then 8
                       else if x = CHR ''b'' \<or> x = CHR ''B'' then 2 else 0)
           in if z = CHR ''0'' \<and> base \<noteq> 0 \<and> ds \<noteq> [] \<and> list_all (\<lambda>c. digit_value c < base) ds
              then Some (digits_value base ds) else None)
      | _ \<Rightarrow> None)"

definition decimal_mantissa :: "string \<Rightarrow> rat option" where
  "decimal_mantissa m =
     (let ip = takeWhile is_digit m; rest = dropWhile is_digit m
      in case rest of
           [] \<Rightarrow> (if ip = [] then None else Some (of_int (digits_value 10 ip)))
         | c # fp \<Rightarrow>
             (if c = CHR ''.'' \<and> list_all is_digit fp \<and> (ip \<noteq> [] \<or> fp \<noteq> [])
              then Some (of_int (digits_value 10 (ip @ fp)) / 10 ^ length fp)
              else None))"

definition signed_integer :: "string \<Rightarrow> int option" where
  "signed_integer s =
     (let ds = (case s of c # t \<Rightarrow> (if c = CHR ''+'' \<or> c = CHR ''-'' then t else s) | [] \<Rightarrow> s)
      in if ds \<noteq> [] \<and> list_all is_digit ds
         then Some (if s \<noteq> [] \<and> hd s = CHR ''-'' then - digits_value 10 ds
                    else digits_value 10 ds)
         else None)"

definition pow10 :: "int \<Rightarrow> rat" where
  "pow10 k = (if 0 \<le> k then 10 ^ nat k else 1 / 10 ^ nat (- k))"

definition unsigned_decimal_literal :: "string \<Rightarrow> number" where
  "unsigned_decimal_literal u =
     (if u = ''Infinity'' then Infinity
      else
        let is_e = (\<lambda>c. c = CHR ''e'' \<or> c = CHR ''E'');
            m = takeWhile (\<lambda>c. \<not> is_e c) u;
            rest = dropWhile (\<lambda>c. \<not> is_e c) u
        in case rest of
             [] \<Rightarrow> (case decimal_mantissa m of None \<Rightarrow> NaN | Some v \<Rightarrow> to_double v)
           | e # ex \<Rightarrow>
               (case (decimal_mantissa m, signed_integer ex) of
                  (Some v, Some k) \<Rightarrow> to_double (v * pow10 k)
                | _ \<Rightarrow> NaN))"

definition Number :: "string \<Rightarrow> number" where
  "Number s =
     (let t = trim s
      in if t = [] then Finite 0
         else case non_decimal_literal t of
                Some n \<Rightarrow> to_double (of_int n)
              | None \<Rightarrow>
                  (case t of
                     c # u \<Rightarrow>
                       (if c = CHR ''-'' then number_negate (unsigned_decimal_literal u)
                        else if c = CHR ''+'' then unsigned_decimal_literal u
                        else unsigned_decimal_literal t)
                   | [] \<Rightarrow> Finite 0))"

text \<open>
  \<^verbatim>\<open>t.split(':').map(Number)\<close> and the destructuring \<^verbatim>\<open>[hour, min]\<close>: a component
  that is missing is \<^verbatim>\<open>undefined\<close>, which the arithmetic turns into NaN. Then
  \<^verbatim>\<open>hour * 60 + min\<close> and the difference of the two times.
\<close>

fun split_colon :: "string \<Rightarrow> string list" where
  "split_colon [] = [[]]"
| "split_colon (c # cs) =
     (if c = CHR '':'' then [] # split_colon cs
      else (case split_colon cs of [] \<Rightarrow> [[c]] | w # ws \<Rightarrow> (c # w) # ws))"

definition hour_min :: "string \<Rightarrow> number \<times> number" where
  "hour_min t =
     (case map Number (split_colon t) of
        [] \<Rightarrow> (NaN, NaN)
      | [h] \<Rightarrow> (h, NaN)
      | h # m # rest \<Rightarrow> (h, m))"

definition minutes :: "string \<Rightarrow> number" where
  "minutes t = (case hour_min t of (h, m) \<Rightarrow> number_plus (number_times h (Finite 60)) m)"

definition compute_duration :: "string \<Rightarrow> string \<Rightarrow> number" where
  "compute_duration startT endT = number_minus (minutes endT) (minutes startT)"

text \<open>\<^verbatim>\<open>findById\<close> on each collection, and the id a new document receives.\<close>

definition Reservation_findById :: "DB \<Rightarrow> nat \<Rightarrow> Reservation option" where
  "Reservation_findById db i = find (\<lambda>r. reservation_id r = i) (reservations db)"

definition Room_findById :: "DB \<Rightarrow> nat \<Rightarrow> Room option" where
  "Room_findById db i = find (\<lambda>r. room_id r = i) (rooms db)"

definition SignIn_findById :: "DB \<Rightarrow> nat \<Rightarrow> SignIn option" where
  "SignIn_findById db i = find (\<lambda>s. signIn_id s = i) (signIns db)"

definition Building_findById :: "DB \<Rightarrow> nat \<Rightarrow> nat option" where
  "Building_findById db i = find (\<lambda>b. b = i) (buildings db)"

definition fresh_id :: "nat list \<Rightarrow> nat" where
  "fresh_id ids = Suc (fold max ids 0)"

text \<open>
  Saving a document that exists replaces the stored one of the same id. Mongoose runs
  the schema validators of the modified paths before it writes, and the \<^verbatim>\<open>pre('save')\<close>
  hooks of the schema; a failed validation throws, which the handler's \<^verbatim>\<open>catch\<close>
  answers with 500 and nothing written.
\<close>

definition Reservation_save :: "Reservation \<Rightarrow> DB \<Rightarrow> DB" where
  "Reservation_save r db =
     db\<lparr>reservations :=
          map (\<lambda>x. if reservation_id x = reservation_id r then r else x) (reservations db)\<rparr>"

text \<open>models/SignIn.js, \<^verbatim>\<open>signInSchema.pre('save')\<close>.\<close>

definition SignIn_preSave :: "SignIn \<Rightarrow> SignIn" where
  "SignIn_preSave s =
     (case signOutTime s of
        Some out \<Rightarrow> s\<lparr>actualDuration := Some (Math_round_div (out - signInTime s) 60000)\<rparr>
      | None \<Rightarrow> s)"

definition SignIn_insert :: "SignIn \<Rightarrow> DB \<Rightarrow> SignIn \<times> DB" where
  "SignIn_insert s db =
     (let s' = SignIn_preSave s in (s', db\<lparr>signIns := signIns db @ [s']\<rparr>))"

definition SignIn_save :: "SignIn \<Rightarrow> DB \<Rightarrow> SignIn \<times> DB" where
  "SignIn_save s db =
     (let s' = SignIn_preSave s
      in (s', db\<lparr>signIns := map (\<lambda>x. if signIn_id x = signIn_id s then s' else x) (signIns db)\<rparr>))"

text \<open>
  models/Room.js, \<^verbatim>\<open>roomSchema.pre('save')\<close>, and the validator \<^verbatim>\<open>min: 0\<close> of
  \<^verbatim>\<open>currentOccupancy\<close>: \<open>None\<close> when the validation fails.
\<close>

definition Room_preSave :: "int \<Rightarrow> Room \<Rightarrow> Room" where
  "Room_preSave now r =
     (if currentOccupancy r > 0 then r\<lparr>occupancyStatus := Occupied\<rparr>
      else if occupancyStatus r \<noteq> Maintenance then r\<lparr>occupancyStatus := Available\<rparr>
      else r)\<lparr>lastUpdated := now\<rparr>"

definition Room_save :: "int \<Rightarrow> Room \<Rightarrow> DB \<Rightarrow> DB option" where
  "Room_save now r db =
     (if currentOccupancy r < 0 then None
      else Some (db\<lparr>rooms :=
                  map (\<lambda>x. if room_id x = room_id r then Room_preSave now r else x) (rooms db)\<rparr>))"

section \<open>Conflict checker (routes/reservations.js, checkBookingConflict)\<close>

text \<open>
  The query selects the reservations of the room on the date whose status is pending or
  confirmed, without the excluded id when one is given; the loop returns at the first
  of them that overlaps the requested times.
\<close>

definition conflict_query :: "nat \<Rightarrow> int \<Rightarrow> nat option \<Rightarrow> Reservation \<Rightarrow> bool" where
  "conflict_query roomId d excludeId r =
     (room r = roomId \<and> reservationDate r = d
      \<and> (status r = Pending \<or> status r = Confirmed)
      \<and> (case excludeId of None \<Rightarrow> True | Some x \<Rightarrow> reservation_id r \<noteq> x))"

fun conflict_loop :: "string \<Rightarrow> string \<Rightarrow> Reservation list \<Rightarrow> bool" where
  "conflict_loop startT endT [] = False"
| "conflict_loop startT endT (existing # rest) =
     (if \<not> (endT \<le> startTime existing \<or> startT \<ge> endTime existing) then True
      else conflict_loop startT endT rest)"

definition checkBookingConflict ::
  "DB \<Rightarrow> nat \<Rightarrow> int \<Rightarrow> string \<Rightarrow> string \<Rightarrow> nat option \<Rightarrow> bool" where
  "checkBookingConflict db roomId d startT endT excludeId =
     conflict_loop startT endT (filter (conflict_query roomId d excludeId) (reservations db))"

section \<open>Reservation routes (routes/reservations.js)\<close>

record CreateBody =
  body_room :: "nat option"
  body_building :: "nat option"
  body_reservationDate :: "int option"
  body_startTime :: string
  body_endTime :: string
  body_purpose :: string
  body_numberOfPeople :: int
  body_notes :: string

record UpdateBody =
  patch_startTime :: string
  patch_endTime :: string
  patch_numberOfPeople :: int
  patch_notes :: string
  patch_status :: string

text \<open>The values of the schema's \<^verbatim>\<open>enum\<close> for the purpose of a reservation.\<close>

definition purpose_enum :: "string list" where
  "purpose_enum = [''studying'', ''group-project'', ''meeting'', ''exam-prep'', ''other'']"

text \<open>
  POST /api/reservations. A duration that is NaN passes the test \<^verbatim>\<open>duration <= 0\<close> and
  fails the schema at the save (Mongoose does not cast NaN to a Number), as do a purpose
  outside the enum and a number of people below the schema's \<^verbatim>\<open>min: 1\<close>.
\<close>

definition createReservation ::
  "DB \<Rightarrow> AuthUser \<Rightarrow> CreateBody \<Rightarrow> (error + Reservation) \<times> DB" where
  "createReservation db caller body =
     (case (body_room body, body_building body, body_reservationDate body) of
        (Some roomId, Some buildingId, Some d) \<Rightarrow>
          if \<not> truthy_str (body_startTime body) \<or> \<not> truthy_str (body_endTime body)
             \<or> \<not> truthy_str (body_purpose body) \<or> \<not> truthy_num (body_numberOfPeople body)
          then (Inl (ValidationError (Message ''Missing required fields'')), db)
          else
          (case Room_findById db roomId of
             None \<Rightarrow> (Inl (NotFound (Message ''Room not found'')), db)
           | Some roomData \<Rightarrow>
          (case Building_findById db buildingId of
             None \<Rightarrow> (Inl (NotFound (Message ''Building not found'')), db)
           | Some buildingData \<Rightarrow>
             if body_numberOfPeople body > capacity roomData
             then (Inl (ValidationError
                     (RoomCapacityRequested (capacity roomData) (body_numberOfPeople body))), db)
             else if checkBookingConflict db roomId d (body_startTime body) (body_endTime body) None
             then (Inl (Conflict (Message ''Time slot is already booked'')), db)
             else
             (let dur = compute_duration (body_startTime body) (body_endTime body)
              in
                if le_zero dur
                then (Inl (ValidationError (Message ''End time must be after start time'')), db)
                else if dur = NaN \<or> body_purpose body \<notin> set purpose_enum
                        \<or> body_numberOfPeople body < 1
                then (Inl (InternalError (Message ''Error creating reservation'')), db)
                else
                  let reservation =
                    \<lparr>reservation_id = fresh_id (map reservation_id (reservations db)),
                     user = userId caller,
                     room = roomId,
                     building = buildingId,
                     reservationDate = d,
                     startTime = body_startTime body,
                     endTime = body_endTime body,
                     duration = dur,
                     purpose = body_purpose body,
                     numberOfPeople = body_numberOfPeople body,
                     status = Pending,
                     cancelReason = None,
                     cancelledAt = None,
                     cancelledBy = None,
                     notes = trim (body_notes body),
                     checkInTime = None,
                     checkOutTime = None\<rparr>
                  in (Inr reservation, db\<lparr>reservations := reservations db @ [reservation]\<rparr>))))
      | _ \<Rightarrow> (Inl (ValidationError (Message ''Missing required fields'')), db))"

text \<open>
  PUT /api/reservations/:id. The blocks of the handler that change the loaded document,
  two of which can answer early, then the save: a number of people that the handler
  changed is validated against the schema's \<^verbatim>\<open>min: 1\<close>. A room that is gone makes
  \<^verbatim>\<open>room.capacity\<close> throw.
\<close>

definition update_times :: "DB \<Rightarrow> Reservation \<Rightarrow> UpdateBody \<Rightarrow> error + Reservation" where
  "update_times db reservation patch =
     (if truthy_str (patch_startTime patch) \<or> truthy_str (patch_endTime patch) then
        let newStartTime = or_str (patch_startTime patch) (startTime reservation);
            newEndTime = or_str (patch_endTime patch) (endTime reservation)
        in if checkBookingConflict db (room reservation) (reservationDate reservation)
                newStartTime newEndTime (Some (reservation_id reservation))
           then Inl (Conflict (Message ''New time slot is already booked''))
           else Inr (reservation\<lparr>startTime := newStartTime, endTime := newEndTime\<rparr>)
      else Inr reservation)"

definition update_people :: "DB \<Rightarrow> Reservation \<Rightarrow> UpdateBody \<Rightarrow> error + Reservation" where
  "update_people db reservation patch =
     (if truthy_num (patch_numberOfPeople patch) then
        (case Room_findById db (room reservation) of
           None \<Rightarrow> Inl (InternalError (Message ''Error updating reservation''))
         | Some roomData \<Rightarrow>
             if patch_numberOfPeople patch > capacity roomData
             then Inl (ValidationError (RoomCapacityIs (capacity roomData)))
             else Inr (reservation\<lparr>numberOfPeople := patch_numberOfPeople patch\<rparr>))
      else Inr reservation)"

definition update_notes_status :: "Reservation \<Rightarrow> UpdateBody \<Rightarrow> Reservation" where
  "update_notes_status reservation patch =
     (let r1 = (if truthy_str (patch_notes patch)
                then reservation\<lparr>notes := trim (patch_notes patch)\<rparr> else reservation)
      in if patch_status patch = ''confirmed'' then r1\<lparr>status := Confirmed\<rparr>
         else if patch_status patch = ''cancelled'' then r1\<lparr>status := Cancelled\<rparr>
         else r1)"

definition updateReservation ::
  "DB \<Rightarrow> AuthUser \<Rightarrow> nat \<Rightarrow> UpdateBody \<Rightarrow> (error + Reservation) \<times> DB" where
  "updateReservation db caller rid patch =
     (case Reservation_findById db rid of
        None \<Rightarrow> (Inl (NotFound (Message ''Reservation not found'')), db)
      | Some reservation \<Rightarrow>
          if user reservation \<noteq> userId caller \<and> role caller \<noteq> ''admin''
          then (Inl (Forbidden (Message ''Unauthorized'')), db)
          else if status reservation \<noteq> Pending \<and> patch_status patch \<noteq> ''confirmed''
          then (Inl (ValidationError (Message ''Can only modify pending reservations'')), db)
          else
          (case update_times db reservation patch of
             Inl e \<Rightarrow> (Inl e, db)
           | Inr r1 \<Rightarrow>
          (case update_people db r1 patch of
             Inl e \<Rightarrow> (Inl e, db)
           | Inr r2 \<Rightarrow>
             let r3 = update_notes_status r2 patch
             in if numberOfPeople r3 \<noteq> numberOfPeople reservation \<and> numberOfPeople r3 < 1
                then (Inl (InternalError (Message ''Error updating reservation'')), db)
                else (Inr r3, Reservation_save r3 db))))"

text \<open>DELETE /api/reservations/:id.\<close>

definition cancelReservation ::
  "DB \<Rightarrow> int \<Rightarrow> AuthUser \<Rightarrow> nat \<Rightarrow> string \<Rightarrow> (error + Reservation) \<times> DB" where
  "cancelReservation db now caller rid reason =
     (case Reservation_findById db rid of
        None \<Rightarrow> (Inl (NotFound (Message ''Reservation not found'')), db)
      | Some reservation \<Rightarrow>
          if user reservation \<noteq> userId caller \<and> role caller \<noteq> ''admin''
          then (Inl (Forbidden (Message ''Unauthorized'')), db)
          else if \<not> (status reservation = Pending \<or> status reservation = Confirmed)
          then (Inl (ValidationError
                  (Message ''Cannot cancel completed or already cancelled reservations'')), db)
          else
            let r = reservation\<lparr>status := Cancelled,
                                cancelledAt := Some now,
                                cancelledBy := Some (userId caller),
                                cancelReason := Some (trim (or_str reason []))\<rparr>
            in (Inr r, Reservation_save r db))"

section \<open>Sign-in routes (routes/signin.js)\<close>

text \<open>
  POST /api/signin. The answer carries the id of the sign-in, its time and the room's
  occupancy. The sign-in is written before the room is loaded, so a missing room, or an
  occupancy the validator refuses, answers 500 with the sign-in stored.
\<close>

definition checkIn ::
  "DB \<Rightarrow> int \<Rightarrow> AuthUser \<Rightarrow> nat option \<Rightarrow> nat option \<Rightarrow> nat option \<Rightarrow> string
     \<Rightarrow> (error + nat \<times> int \<times> int) \<times> DB" where
  "checkIn db now caller reservation roomArg buildingArg notesArg =
     (case (reservation, roomArg, buildingArg) of
        (Some rid, Some roomId, Some buildingId) \<Rightarrow>
          (case Reservation_findById db rid of
             None \<Rightarrow> (Inl (NotFound (Message ''Reservation not found'')), db)
           | Some reservationData \<Rightarrow>
               if user reservationData \<noteq> userId caller
               then (Inl (Forbidden (Message ''Unauthorized'')), db)
               else if \<not> (status reservationData = Pending \<or> status reservationData = Confirmed)
               then (Inl (ValidationError
                       (Message ''Can only check in for pending or confirmed reservations'')), db)
               else
               (case find (\<lambda>s. signIn_reservation s = rid \<and> signIn_status s = SignInActive)
                       (signIns db) of
                  Some existingSignIn \<Rightarrow>
                    (Inl (ValidationError (Message ''Already checked in for this reservation'')), db)
                | None \<Rightarrow>
                    let (signIn, db1) = SignIn_insert
                          \<lparr>signIn_id = fresh_id (map signIn_id (signIns db)),
                           signIn_user = userId caller,
                           signIn_reservation = rid,
                           signIn_room = roomId,
                           signIn_building = buildingId,
                           signInTime = now,
                           signOutTime = None,
                           actualDuration = None,
                           signIn_notes = trim (or_str notesArg []),
                           signIn_status = SignInActive\<rparr> db
                    in (case Room_findById db1 roomId of
                          None \<Rightarrow> (Inl (InternalError (Message ''Error during check-in'')), db1)
                        | Some roomData \<Rightarrow>
                            let roomData' =
                                  roomData\<lparr>currentOccupancy := or_num (currentOccupancy roomData) 0 + 1\<rparr>
                            in (case Room_save now roomData' db1 of
                                  None \<Rightarrow> (Inl (InternalError (Message ''Error during check-in'')), db1)
                                | Some db2 \<Rightarrow>
                                    (Inr (signIn_id signIn, signInTime signIn,
                                          currentOccupancy roomData'), db2)))))
      | _ \<Rightarrow> (Inl (ValidationError (Message ''Missing required fields'')), db))"

text \<open>
  POST /api/signin/:id/checkout. The answer carries the id of the sign-in, its sign-out
  time, its duration and the room's occupancy.
\<close>

definition checkOut ::
  "DB \<Rightarrow> int \<Rightarrow> AuthUser \<Rightarrow> nat \<Rightarrow> string
     \<Rightarrow> (error + nat \<times> int option \<times> int option \<times> int) \<times> DB" where
  "checkOut db now caller sid notesArg =
     (case SignIn_findById db sid of
        None \<Rightarrow> (Inl (NotFound (Message ''Check-in record not found'')), db)
      | Some signIn0 \<Rightarrow>
          if signIn_user signIn0 \<noteq> userId caller
          then (Inl (Forbidden (Message ''Unauthorized'')), db)
          else if signIn_status signIn0 \<noteq> SignInActive
          then (Inl (ValidationError (Message ''Check-in is not active'')), db)
          else
            let signIn1 = signIn0\<lparr>signOutTime := Some now, signIn_status := SignInCompleted\<rparr>;
                (signIn, db1) = SignIn_save
                           (if truthy_str notesArg then signIn1\<lparr>signIn_notes := trim notesArg\<rparr>
                            else signIn1) db
            in (case Room_findById db1 (signIn_room signIn) of
                  None \<Rightarrow> (Inl (InternalError (Message ''Error during check-out'')), db1)
                | Some room0 \<Rightarrow>
                    let room1 = room0\<lparr>currentOccupancy :=
                                         max 0 (or_num (currentOccupancy room0) 1 - 1)\<rparr>
                    in (case Room_save now room1 db1 of
                          None \<Rightarrow> (Inl (InternalError (Message ''Error during check-out'')), db1)
                        | Some db2 \<Rightarrow>
                            let db3 =
                                  (case Reservation_findById db2 (signIn_reservation signIn) of
                                     None \<Rightarrow> db2
                                   | Some reservation \<Rightarrow>
                                       Reservation_save
                                         (reservation\<lparr>status := Completed,
                                                       checkInTime := Some (signInTime signIn),
                                                       checkOutTime := signOutTime signIn\<rparr>) db2)
                            in (Inr (signIn_id signIn, signOutTime signIn, actualDuration signIn,
                                     currentOccupancy room1), db3))))"

section \<open>Requests and the invariant of the reservations\<close>

text \<open>
  The five requests of the specification's operations, and the database after the server
  has answered one at a given time.
\<close>

datatype request =
  CreateReservation AuthUser CreateBody
  | UpdateReservation AuthUser nat UpdateBody
  | CancelReservation AuthUser nat string
  | CheckIn AuthUser "nat option" "nat option" "nat option" string
  | CheckOut AuthUser nat string

fun handle :: "int \<Rightarrow> request \<Rightarrow> DB \<Rightarrow> DB" where
  "handle now (CreateReservation caller body) db = snd (createReservation db caller body)"
| "handle now (UpdateReservation caller rid patch) db = snd (updateReservation db caller rid patch)"
| "handle now (CancelReservation caller rid reason) db =
     snd (cancelReservation db now caller rid reason)"
| "handle now (CheckIn caller reservation roomArg buildingArg notesArg) db =
     snd (checkIn db now caller reservation roomArg buildingArg notesArg)"
| "handle now (CheckOut caller sid notesArg) db = snd (checkOut db now caller sid notesArg)"

fun is_checkOut :: "request \<Rightarrow> bool" where
  "is_checkOut (CheckOut caller sid notesArg) = True"
| "is_checkOut req = False"

fun sets_confirmed :: "request \<Rightarrow> bool" where
  "sets_confirmed (UpdateReservation caller rid patch) = (patch_status patch = ''confirmed'')"
| "sets_confirmed req = False"

text \<open>
  The invariant of the data model: the pending and confirmed reservations of one room
  on one date do not overlap pairwise, with the overlap test of the conflict checker.
\<close>

definition overlap :: "Reservation \<Rightarrow> Reservation \<Rightarrow> bool" where
  "overlap a b = (\<not> (endTime a \<le> startTime b \<or> startTime a \<ge> endTime b))"

definition clash :: "Reservation \<Rightarrow> Reservation \<Rightarrow> bool" where
  "clash a b = (room a = room b \<and> reservationDate a = reservationDate b \<and> overlap a b)"

definition is_active :: "Reservation \<Rightarrow> bool" where
  "is_active r = (status r = Pending \<or> status r = Confirmed)"

fun no_overlap :: "Reservation list \<Rightarrow> bool" where
  "no_overlap [] = True"
| "no_overlap (a # rest) = (list_all (\<lambda>b. \<not> clash a b) rest \<and> no_overlap rest)"

definition no_double_booking :: "DB \<Rightarrow> bool" where
  "no_double_booking db = no_overlap (filter is_active (reservations db))"

text \<open>
  With the ids of the stored reservations distinct, as the database keeps them, this is
  the invariant the requests are to preserve.
\<close>

definition booking_invariant :: "DB \<Rightarrow> bool" where
  "booking_invariant db =
     (distinct (map reservation_id (reservations db)) \<and> no_double_booking db)"

text \<open>
  The one request that can take an inactive reservation back to an active status without
  a run of the conflict checker: an update of a reservation that is neither pending nor
  confirmed, whose patch has the status confirmed and neither a start nor an end time.
\<close>

fun revives :: "DB \<Rightarrow> request \<Rightarrow> bool" where
  "revives db (UpdateReservation caller rid patch) =
     (case Reservation_findById db rid of
        None \<Rightarrow> False
      | Some r \<Rightarrow> \<not> is_active r \<and> patch_status patch = ''confirmed''
                  \<and> \<not> truthy_str (patch_startTime patch) \<and> \<not> truthy_str (patch_endTime patch))"
| "revives db req = False"

text \<open>A sequence of timed requests, answered one after the other.\<close>

fun run :: "(int \<times> request) list \<Rightarrow> DB \<Rightarrow> DB" where
  "run [] db = db"
| "run ((now, req) # rest) db = run rest (handle now req db)"

fun never_revives :: "(int \<times> request) list \<Rightarrow> DB \<Rightarrow> bool" where
  "never_revives [] db = True"
| "never_revives ((now, req) # rest) db =
     (\<not> revives db req \<and> never_revives rest (handle now req db))"

section \<open>Times of day and calendar dates\<close>

text \<open>
  The format the schema documents for a time, \<^verbatim>\<open>HH:MM\<close>: two digits, a colon, two
  digits, with the minutes below 60; and the minute of the day such a time denotes.
\<close>

definition wf_time :: "string \<Rightarrow> bool" where
  "wf_time t =
     (case t of
        [h1, h2, c, m1, m2] \<Rightarrow>
          is_digit h1 \<and> is_digit h2 \<and> c = CHR '':'' \<and> is_digit m1 \<and> is_digit m2
          \<and> m1 \<le> CHR ''5''
      | _ \<Rightarrow> False)"

definition minute_of_day :: "string \<Rightarrow> int" where
  "minute_of_day t =
     (case t of
        [h1, h2, c, m1, m2] \<Rightarrow>
          (10 * digit_value h1 + digit_value h2) * 60 + (10 * digit_value m1 + digit_value m2)
      | _ \<Rightarrow> 0)"

text \<open>
  A Date made of a calendar date \<^verbatim>\<open>YYYY-MM-DD\<close> is the midnight (UTC) that begins the
  day: a whole number of days of 86400000 milliseconds.
\<close>

definition calendar_date :: "int \<Rightarrow> int" where
  "calendar_date d = d div 86400000"

definition is_calendar_date :: "int \<Rightarrow> bool" where
  "is_calendar_date d = (d mod 86400000 = 0)"

section \<open>Example data\<close>

text \<open>
  A database with one building and one room of capacity 4, a student who books it from
  14:00 to 16:00, and the states the examples below start from.
\<close>

definition example_room :: Room where
  "example_room =
     \<lparr>room_id = 1, capacity = 4, occupancyStatus = Available, currentOccupancy = 0,
      lastUpdated = 0\<rparr>"

definition example_db :: DB where
  "example_db = \<lparr>reservations = [], rooms = [example_room], buildings = [1], signIns = []\<rparr>"

definition example_user :: AuthUser where
  "example_user = \<lparr>userId = 7, role = ''student''\<rparr>"

definition example_body :: CreateBody where
  "example_body =
     \<lparr>body_room = Some 1, body_building = Some 1, body_reservationDate = Some 0,
      body_startTime = ''14:00'', body_endTime = ''16:00'', body_purpose = ''studying'',
      body_numberOfPeople = 2, body_notes = []\<rparr>"

definition example_reservation :: Reservation where
  "example_reservation =
     \<lparr>reservation_id = 1, user = 7, room = 1, building = 1, reservationDate = 0,
      startTime = ''14:00'', endTime = ''16:00'', duration = Finite 120, purpose = ''studying'',
      numberOfPeople = 2, status = Pending, cancelReason = None, cancelledAt = None,
      cancelledBy = None, notes = [], checkInTime = None, checkOutTime = None\<rparr>"

definition example_booked :: DB where
  "example_booked = example_db\<lparr>reservations := [example_reservation]\<rparr>"

definition example_patch :: UpdateBody where
  "example_patch =
     \<lparr>patch_startTime = [], patch_endTime = [], patch_numberOfPeople = 0, patch_notes = [],
      patch_status = []\<rparr>"

definition example_signIn :: SignIn where
  "example_signIn =
     \<lparr>signIn_id = 1, signIn_user = 7, signIn_reservation = 1, signIn_room = 1,
      signIn_building = 1, signInTime = 1000, signOutTime = None, actualDuration = None,
      signIn_notes = [], signIn_status = SignInActive\<rparr>"

definition example_orphan :: DB where
  "example_orphan = example_db\<lparr>signIns := [example_signIn]\<rparr>"

definition example_checked_in :: DB where
  "example_checked_in =
     example_booked
       \<lparr>signIns := [example_signIn],
        rooms := [example_room\<lparr>currentOccupancy := 1, occupancyStatus := Occupied,
                    lastUpdated := 1000\<rparr>]\<rparr>"

text \<open>
  The reservation of the example is cancelled, the room is booked again for the same
  time, and the owner then sends an update of the cancelled reservation whose only
  field is the status confirmed.
\<close>

definition example_cancelled :: DB where
  "example_cancelled = handle 5 (CancelReservation example_user 1 []) example_booked"

definition example_rebooked :: DB where
  "example_rebooked = handle 6 (CreateReservation example_user example_body) example_cancelled"

definition example_revived :: DB where
  "example_revived =
     handle 7 (UpdateReservation example_user 1 (example_patch\<lparr>patch_status := ''confirmed''\<rparr>))
       example_rebooked"

text \<open>A completed reservation from 14:00 to 16:00 and a pending one from 16:00 to 17:00.\<close>

definition example_two :: DB where
  "example_two =
     example_db
       \<lparr>reservations :=
          [example_reservation\<lparr>status := Completed\<rparr>,
           example_reservation\<lparr>reservation_id := 2, startTime := ''16:00'', endTime := ''17:00'',
              duration := Finite 60\<rparr>]\<rparr>"

section \<open>JavaScript numbers: properties\<close>

text \<open>
  An integer below \<open>2\<^sup>5\<^sup>3\<close> in absolute value is a double: rounding leaves it as
  it is. The durations of the examples are computed with this fact.
\<close>

declare bitlen.simps [simp del]

lemma bitlen_le: "n < 2 ^ k \<Longrightarrow> bitlen n \<le> int k"
proof (induction k arbitrary: n)
  case 0
  then show ?case by (subst bitlen.simps) simp
next
  case (Suc k)
  show ?case
  proof (cases "n \<le> 0")
    case True
    then show ?thesis by (subst bitlen.simps) simp
  next
    case False
    have "n div 2 < 2 ^ k" using Suc.prems by simp
    from Suc.IH [OF this] show ?thesis using False by (subst bitlen.simps) simp
  qed
qed

lemma floor_log2_int_le:
  assumes "0 < n" and "n < 2 ^ k"
  shows "floor_log2 (of_int n) \<le> int k - 1"
proof -
  have q: "quotient_of (of_int n) = (n, 1)" by simp
  have b0: "bitlen 0 = 0" by (subst bitlen.simps) simp
  have b1: "bitlen 1 = 1" by (subst bitlen.simps) (simp add: b0)
  have "bitlen n \<le> int k" using assms(2) by (rule bitlen_le)
  then show ?thesis
    by (simp add: floor_log2_def q b1 Let_def)
qed

lemma round_half_even_int: "round_half_even (of_int m) = m"
  by (simp add: round_half_even_def Let_def)

lemma pow2_nonpos: "p \<le> 0 \<Longrightarrow> pow2 p = 1 / 2 ^ nat (- p)"
  by (auto simp: pow2_def)

lemma to_double_pos_int:
  assumes "0 < n" and "n < 2 ^ 53"
  shows "to_double (of_int n) = Finite (of_int n)"
proof -
  define p where "p = max (floor_log2 (of_int n) - 52) (- 1074)"
  have p0: "p \<le> 0" using floor_log2_int_le [OF assms] by (simp add: p_def)
  define j where "j = nat (- p)"
  have pw: "pow2 p = 1 / 2 ^ j" using p0 by (simp add: pow2_nonpos j_def)
  have d: "(of_int n :: rat) / pow2 p = of_int (n * 2 ^ j)" by (simp add: pw)
  have r: "of_int (round_half_even ((of_int n :: rat) / pow2 p)) * pow2 p = of_int n"
    unfolding d round_half_even_int by (simp add: pw)
  have big: "\<not> pow2 1024 \<le> (of_int n :: rat)"
  proof -
    have "n < 2 ^ 1024"
      using assms(2) by (rule less_trans) simp
    then have "(of_int n :: rat) < of_int (2 ^ 1024)" by (simp only: of_int_less_iff)
    then show ?thesis by (simp add: pow2_def)
  qed
  have a: "\<bar>of_int n :: rat\<bar> = of_int n" using assms(1) by simp
  show ?thesis
    using assms(1) r big
    by (simp add: to_double_def a p_def [symmetric] Let_def)
qed

lemma to_double_neg: "to_double (- q) = number_negate (to_double q)"
  by (simp add: to_double_def Let_def)

lemma to_double_int:
  assumes "\<bar>n\<bar> < 2 ^ 53"
  shows "to_double (of_int n) = Finite (of_int n)"
proof (cases "n = 0")
  case True
  then show ?thesis by (simp add: to_double_def)
next
  case False
  show ?thesis
  proof (cases "0 < n")
    case True
    then show ?thesis using assms by (simp add: to_double_pos_int)
  next
    case neg: False
    then have "0 < - n" "- n < 2 ^ 53" using False assms by simp_all
    from to_double_pos_int [OF this] to_double_neg [of "of_int (- n)"]
    show ?thesis by simp
  qed
qed

lemma to_double_numeral:
  "numeral w < (2 :: int) ^ 53 \<Longrightarrow> to_double (numeral w) = Finite (numeral w)"
  "numeral w < (2 :: int) ^ 53 \<Longrightarrow> to_double (- numeral w) = Finite (- numeral w)"
  "to_double 0 = Finite 0"
  "to_double 1 = Finite 1"
  using to_double_int [of "numeral w"] to_double_int [of "- numeral w"] to_double_int [of 1]
  by (simp_all add: to_double_def)

text \<open>The definitions that evaluate the duration of two given times.\<close>

lemmas duration_defs = compute_duration_def minutes_def hour_min_def Number_def trim_def
  is_space_def non_decimal_literal_def unsigned_decimal_literal_def decimal_mantissa_def
  signed_integer_def is_digit_def digits_value_def digit_value_def number_minus_def
  to_double_numeral Let_def

lemma example_durations:
  "compute_duration ''14:00'' ''16:00'' = Finite 120"
  "compute_duration ''16:00'' ''14:00'' = Finite (- 120)"
  "compute_duration ''15:00'' ''15:00'' = Finite 0"
  "compute_duration ''15:30'' ''14:30'' = Finite (- 60)"
  "compute_duration ''16:00'' ''14:00 '' = Finite (- 120)"
  "compute_duration ''16:00'' ''-1:00'' = Finite (- 1020)"
  "compute_duration ''9:00'' ''15:00'' = Finite 360"
  "compute_duration ''14:00'' ''16:00 '' = Finite 120"
  by (simp_all add: duration_defs)

lemma example_minutes:
  "minutes ''9:00'' = Finite 540"
  "minutes ''14:00'' = Finite 840"
  "minutes ''15:00'' = Finite 900"
  "minutes ''16:00'' = Finite 960"
  by (simp_all add: duration_defs)

section \<open>Times in the documented format\<close>

lemma is_digit_code: "is_digit c \<longleftrightarrow> 48 \<le> (of_char c :: nat) \<and> (of_char c :: nat) \<le> 57"
  by (simp add: is_digit_def less_eq_char_def)

lemma digit_value_code: "is_digit c \<Longrightarrow> digit_value c = int (of_char c) - 48"
  by (simp add: digit_value_def is_digit_def of_nat_of_char)

lemma char_eq_code: "c = d \<longleftrightarrow> (of_char c :: nat) = of_char d"
  by simp

lemma wf_time_cases:
  assumes "wf_time t"
  obtains h1 h2 m1 m2 where "t = [h1, h2, CHR '':'', m1, m2]"
    and "is_digit h1" and "is_digit h2" and "is_digit m1" and "is_digit m2"
    and "m1 \<le> CHR ''5''"
  using assms by (auto simp: wf_time_def split: list.splits)

text \<open>
  On times in the format, the order in which the conflict checker compares the strings
  is the order of the minutes of the day.
\<close>

lemma two_digits_less:
  fixes x1 x2 y1 y2 :: nat
  assumes "x2 \<le> 9" and "y2 \<le> 9"
  shows "(x1 < y1 \<or> x1 = y1 \<and> x2 < y2) \<longleftrightarrow> 10 * x1 + x2 < 10 * y1 + y2"
  using assms by linarith

lemma two_digits_le:
  fixes x1 x2 y1 y2 :: nat
  assumes "x2 \<le> 9" and "y2 \<le> 9"
  shows "(x1 < y1 \<or> x1 = y1 \<and> x2 \<le> y2) \<longleftrightarrow> 10 * x1 + x2 \<le> 10 * y1 + y2"
  using assms by linarith

lemma two_digits_eq:
  fixes x1 x2 y1 y2 :: nat
  assumes "x2 \<le> 9" and "y2 \<le> 9"
  shows "(x1 = y1 \<and> x2 = y2) \<longleftrightarrow> 10 * x1 + x2 = 10 * y1 + y2"
proof
  assume "x1 = y1 \<and> x2 = y2"
  then show "10 * x1 + x2 = 10 * y1 + y2" by simp
next
  assume h: "10 * x1 + x2 = 10 * y1 + y2"
  have "x1 = y1" using h assms by linarith
  then show "x1 = y1 \<and> x2 = y2" using h by simp
qed

lemma hours_minutes_le:
  fixes h k m n :: nat
  assumes "m \<le> 59" and "n \<le> 59"
  shows "(h < k \<or> h = k \<and> m \<le> n) \<longleftrightarrow> 60 * h + m \<le> 60 * k + n"
  using assms by linarith

lemma wf_time_le_iff:
  assumes "wf_time a" and "wf_time b"
  shows "a \<le> b \<longleftrightarrow> minute_of_day a \<le> minute_of_day b"
proof -
  from assms(1) obtain a1 a2 a3 a4 where a: "a = [a1, a2, CHR '':'', a3, a4]"
    and da: "is_digit a1" "is_digit a2" "is_digit a3" "is_digit a4" and a5: "a3 \<le> CHR ''5''"
    by (rule wf_time_cases)
  from assms(2) obtain b1 b2 b3 b4 where b: "b = [b1, b2, CHR '':'', b3, b4]"
    and db: "is_digit b1" "is_digit b2" "is_digit b3" "is_digit b4" and b5: "b3 \<le> CHR ''5''"
    by (rule wf_time_cases)
  define x1 x2 x3 x4 where "x1 = (of_char a1 :: nat) - 48" and "x2 = (of_char a2 :: nat) - 48"
    and "x3 = (of_char a3 :: nat) - 48" and "x4 = (of_char a4 :: nat) - 48"
  define y1 y2 y3 y4 where "y1 = (of_char b1 :: nat) - 48" and "y2 = (of_char b2 :: nat) - 48"
    and "y3 = (of_char b3 :: nat) - 48" and "y4 = (of_char b4 :: nat) - 48"
  note xy = x1_def x2_def x3_def x4_def y1_def y2_def y3_def y4_def
  have r: "x2 \<le> 9" "y2 \<le> 9" "x4 \<le> 9" "y4 \<le> 9" "x3 \<le> 5" "y3 \<le> 5"
    using da db a5 b5 by (auto simp: xy is_digit_code less_eq_char_def)
  have lt: "c < d \<longleftrightarrow> (of_char c :: nat) - 48 < of_char d - 48"
    and le: "c \<le> d \<longleftrightarrow> (of_char c :: nat) - 48 \<le> of_char d - 48"
    and eq: "c = d \<longleftrightarrow> (of_char c :: nat) - 48 = of_char d - 48"
    if "is_digit c" "is_digit d" for c d
  proof -
    have "48 \<le> (of_char c :: nat)" "48 \<le> (of_char d :: nat)"
      using that by (simp_all add: is_digit_code)
    then show "c < d \<longleftrightarrow> (of_char c :: nat) - 48 < of_char d - 48"
      "c \<le> d \<longleftrightarrow> (of_char c :: nat) - 48 \<le> of_char d - 48"
      "c = d \<longleftrightarrow> (of_char c :: nat) - 48 = of_char d - 48"
      using of_char_eq_iff [of c d, where ?'a = nat]
      by (auto simp: less_char_def less_eq_char_def simp del: of_char_eq_iff)
  qed
  have ma: "minute_of_day a = int (60 * (10 * x1 + x2) + (10 * x3 + x4))"
    using da by (simp add: a minute_of_day_def digit_value_code xy is_digit_code)
  have mb: "minute_of_day b = int (60 * (10 * y1 + y2) + (10 * y3 + y4))"
    using db by (simp add: b minute_of_day_def digit_value_code xy is_digit_code)
  have "a \<le> b \<longleftrightarrow>
      (a1 < b1 \<or> a1 = b1 \<and> a2 < b2)
      \<or> (a1 = b1 \<and> a2 = b2) \<and> (a3 < b3 \<or> a3 = b3 \<and> a4 \<le> b4)"
    by (simp add: a b) auto
  also have "\<dots> \<longleftrightarrow>
      (x1 < y1 \<or> x1 = y1 \<and> x2 < y2)
      \<or> (x1 = y1 \<and> x2 = y2) \<and> (x3 < y3 \<or> x3 = y3 \<and> x4 \<le> y4)"
    unfolding xy
    using lt [OF da(1) db(1)] eq [OF da(1) db(1)] lt [OF da(2) db(2)] eq [OF da(2) db(2)]
      lt [OF da(3) db(3)] eq [OF da(3) db(3)] le [OF da(4) db(4)]
    by (simp only:)
  also have "\<dots> \<longleftrightarrow>
      10 * x1 + x2 < 10 * y1 + y2
      \<or> 10 * x1 + x2 = 10 * y1 + y2 \<and> 10 * x3 + x4 \<le> 10 * y3 + y4"
    by (simp only: two_digits_less [OF r(1,2)] two_digits_eq [OF r(1,2)] two_digits_le [OF r(3,4)])
  also have "\<dots> \<longleftrightarrow>
      60 * (10 * x1 + x2) + (10 * x3 + x4) \<le> 60 * (10 * y1 + y2) + (10 * y3 + y4)"
  proof (rule hours_minutes_le)
    show "10 * x3 + x4 \<le> 59" using r by simp
    show "10 * y3 + y4 \<le> 59" using r by simp
  qed
  finally show ?thesis by (simp only: ma mb of_nat_le_iff)
qed

lemma wf_time_less_iff:
  assumes "wf_time a" and "wf_time b"
  shows "a < b \<longleftrightarrow> minute_of_day a < minute_of_day b"
  using wf_time_le_iff [OF assms(2,1)] by (simp add: not_le [symmetric])

lemma to_double_int_eq:
  "q = of_int n \<Longrightarrow> \<bar>n\<bar> < 2 ^ 53 \<Longrightarrow> to_double q = Finite q"
  by (simp add: to_double_int)

lemma digit_value_range: "is_digit c \<Longrightarrow> 0 \<le> digit_value c \<and> digit_value c \<le> 9"
  by (auto simp: digit_value_code is_digit_code)

lemma digit_not_other:
  assumes "is_digit c"
  shows "\<not> is_space c" and "c \<noteq> CHR '':''" and "c \<noteq> CHR ''-''" and "c \<noteq> CHR ''+''"
    and "c \<noteq> CHR ''e''" and "c \<noteq> CHR ''E''"
  using assms by (auto simp: is_digit_def is_space_def)

lemma Number_two_digits:
  assumes c: "is_digit c" and d: "is_digit d"
  shows "Number [c, d] = Finite (of_int (10 * digit_value c + digit_value d))"
proof -
  note nc = digit_not_other [OF c] and nd = digit_not_other [OF d]
  have t: "trim [c, d] = [c, d]" using nc nd by (simp add: trim_def)
  have n: "non_decimal_literal [c, d] = None" by (simp add: non_decimal_literal_def)
  have m: "decimal_mantissa [c, d] = Some (of_int (10 * digit_value c + digit_value d))"
    using c d by (simp add: decimal_mantissa_def digits_value_def)
  have u: "unsigned_decimal_literal [c, d] =
             to_double (of_int (10 * digit_value c + digit_value d))"
    using nc nd by (simp add: unsigned_decimal_literal_def m)
  have b: "\<bar>10 * digit_value c + digit_value d\<bar> < 2 ^ 53"
    using digit_value_range [OF c] digit_value_range [OF d] by simp
  have "Number [c, d] = to_double (of_int (10 * digit_value c + digit_value d))"
    using nc by (simp add: Number_def t n u)
  then show ?thesis by (simp only: to_double_int [OF b])
qed

text \<open>On a time in the format the handler's arithmetic gives the minute of the day.\<close>

lemma minutes_wf_time:
  assumes "wf_time t"
  shows "minutes t = Finite (of_int (minute_of_day t))"
proof -
  from assms obtain h1 h2 m1 m2 where t: "t = [h1, h2, CHR '':'', m1, m2]"
    and dg: "is_digit h1" "is_digit h2" "is_digit m1" "is_digit m2" and m5: "m1 \<le> CHR ''5''"
    by (rule wf_time_cases)
  define H where "H = 10 * digit_value h1 + digit_value h2"
  define M where "M = 10 * digit_value m1 + digit_value m2"
  have rg: "0 \<le> H" "H \<le> 99" "0 \<le> M" "M \<le> 99"
    using digit_value_range [OF dg(1)] digit_value_range [OF dg(2)]
      digit_value_range [OF dg(3)] digit_value_range [OF dg(4)]
    by (simp_all add: H_def M_def)
  have sp: "split_colon t = [[h1, h2], [m1, m2]]"
    using digit_not_other(2) [OF dg(1)] digit_not_other(2) [OF dg(2)]
      digit_not_other(2) [OF dg(3)] digit_not_other(2) [OF dg(4)]
    by (simp add: t)
  have hm: "hour_min t = (Finite (of_int H), Finite (of_int M))"
    by (simp add: hour_min_def sp Number_two_digits dg H_def M_def)
  have a: "to_double (of_int H * 60) = Finite (of_int H * 60)"
    by (rule to_double_int_eq [of _ "H * 60"]) (use rg in simp_all)
  have b: "to_double (of_int H * 60 + of_int M) = Finite (of_int H * 60 + of_int M)"
    by (rule to_double_int_eq [of _ "H * 60 + M"]) (use rg in simp_all)
  have "minutes t = Finite (of_int H * 60 + of_int M)"
    by (simp add: minutes_def hm a b)
  then have "minutes t = Finite (of_int (H * 60 + M))" by simp
  moreover have "minute_of_day t = H * 60 + M"
    by (simp add: minute_of_day_def t H_def M_def)
  ultimately show ?thesis by simp
qed

lemma compute_duration_wf_time:
  assumes "wf_time s" and "wf_time e"
  shows "compute_duration s e = Finite (of_int (minute_of_day e - minute_of_day s))"
proof -
  have r: "0 \<le> minute_of_day t \<and> minute_of_day t \<le> 6039" if "wf_time t" for t
  proof -
    from that obtain h1 h2 m1 m2 where t: "t = [h1, h2, CHR '':'', m1, m2]"
      and dg: "is_digit h1" "is_digit h2" "is_digit m1" "is_digit m2"
      by (rule wf_time_cases)
    show ?thesis
      using digit_value_range [OF dg(1)] digit_value_range [OF dg(2)]
        digit_value_range [OF dg(3)] digit_value_range [OF dg(4)]
      by (simp add: minute_of_day_def t)
  qed
  have "to_double (of_int (minute_of_day e) + - of_int (minute_of_day s)) =
          Finite (of_int (minute_of_day e) + - of_int (minute_of_day s))"
  proof (rule to_double_int_eq [of _ "minute_of_day e - minute_of_day s"])
    show "(of_int (minute_of_day e) + - of_int (minute_of_day s) :: rat) =
            of_int (minute_of_day e - minute_of_day s)"
      by simp
    show "\<bar>minute_of_day e - minute_of_day s\<bar> < 2 ^ 53"
      using r [OF assms(1)] r [OF assms(2)] by auto
  qed
  then have "compute_duration s e =
          Finite (of_int (minute_of_day e) + - of_int (minute_of_day s))"
    by (simp add: compute_duration_def number_minus_def minutes_wf_time assms)
  then show ?thesis by simp
qed

section \<open>Conflict checker: properties\<close>

lemma conflict_loop_iff:
  "conflict_loop s e rs \<longleftrightarrow> (\<exists>r\<in>set rs. \<not> (e \<le> startTime r \<or> s \<ge> endTime r))"
  by (induction rs) auto

text \<open>The checker in the terms it computes with: the order of the strings, the Date.\<close>

lemma checkBookingConflict_strings:
  "checkBookingConflict db roomId d s e excludeId \<longleftrightarrow>
      (\<exists>r\<in>set (reservations db).
          room r = roomId \<and> reservationDate r = d
          \<and> (status r = Pending \<or> status r = Confirmed)
          \<and> (\<forall>x. excludeId = Some x \<longrightarrow> reservation_id r \<noteq> x)
          \<and> \<not> (e \<le> startTime r \<or> s \<ge> endTime r))"
  unfolding checkBookingConflict_def conflict_loop_iff conflict_query_def
  by (auto split: option.splits)

lemma calendar_date_eq_iff:
  "is_calendar_date a \<Longrightarrow> is_calendar_date b \<Longrightarrow> a = b \<longleftrightarrow> calendar_date a = calendar_date b"
proof -
  assume "is_calendar_date a" "is_calendar_date b"
  then have "86400000 dvd a" "86400000 dvd b"
    by (simp_all add: is_calendar_date_def mod_eq_0_iff_dvd)
  then have "a = 86400000 * calendar_date a" "b = 86400000 * calendar_date b"
    unfolding calendar_date_def by (simp_all only: dvd_mult_div_cancel)
  then show ?thesis by auto
qed

text \<open>
  C2 (as amended). When the proposed times and the stored times are written in the
  format HH:MM (two digits each, minutes below 60) and the dates are calendar dates,
  the checker answers true exactly when some stored reservation of the same room and
  the same calendar date, pending or confirmed and other than the excluded one, has an
  interval [s2,e2) of minutes of the day with NOT(end \<le> s2 OR start \<ge> e2); so a
  proposal that only touches the boundary of every candidate (end = s2 or start = e2)
  is no conflict. The ordering start < end of the proposal is not needed. On such
  times the minute of the day is the number the handler computes for its duration
  (\<open>minutes_wf_time\<close>) and the order of the strings, which the checker compares, is
  the order of the minutes (\<open>wf_time_le_iff\<close>).
\<close>

theorem checkBookingConflict_iff_interval_overlap:
  assumes "wf_time s" and "wf_time e" and "is_calendar_date d"
    and "\<forall>r\<in>set (reservations db).
           wf_time (startTime r) \<and> wf_time (endTime r) \<and> is_calendar_date (reservationDate r)"
  shows "(checkBookingConflict db roomId d s e excludeId \<longleftrightarrow>
      (\<exists>r\<in>set (reservations db).
          room r = roomId \<and> calendar_date (reservationDate r) = calendar_date d
          \<and> (status r = Pending \<or> status r = Confirmed)
          \<and> (\<forall>x. excludeId = Some x \<longrightarrow> reservation_id r \<noteq> x)
          \<and> \<not> (minute_of_day e \<le> minute_of_day (startTime r)
                \<or> minute_of_day s \<ge> minute_of_day (endTime r))))
   \<and> ((\<forall>r\<in>set (reservations db).
          room r = roomId \<and> calendar_date (reservationDate r) = calendar_date d
          \<and> (status r = Pending \<or> status r = Confirmed)
          \<and> (\<forall>x. excludeId = Some x \<longrightarrow> reservation_id r \<noteq> x)
          \<longrightarrow> minute_of_day e = minute_of_day (startTime r)
              \<or> minute_of_day s = minute_of_day (endTime r))
        \<longrightarrow> \<not> checkBookingConflict db roomId d s e excludeId)"
proof -
  have t: "(e \<le> startTime r \<or> s \<ge> endTime r) \<longleftrightarrow>
           (minute_of_day e \<le> minute_of_day (startTime r)
            \<or> minute_of_day s \<ge> minute_of_day (endTime r))"
    and dt: "reservationDate r = d \<longleftrightarrow> calendar_date (reservationDate r) = calendar_date d"
    if "r \<in> set (reservations db)" for r
  proof -
    from that assms(4) have w: "wf_time (startTime r)" "wf_time (endTime r)"
      "is_calendar_date (reservationDate r)"
      by auto
    show "(e \<le> startTime r \<or> s \<ge> endTime r) \<longleftrightarrow>
           (minute_of_day e \<le> minute_of_day (startTime r)
            \<or> minute_of_day s \<ge> minute_of_day (endTime r))"
      by (simp only: wf_time_le_iff [OF assms(2) w(1)] wf_time_le_iff [OF w(2) assms(1)])
    show "reservationDate r = d \<longleftrightarrow> calendar_date (reservationDate r) = calendar_date d"
      by (rule calendar_date_eq_iff [OF w(3) assms(3)])
  qed
  have main: "checkBookingConflict db roomId d s e excludeId \<longleftrightarrow>
      (\<exists>r\<in>set (reservations db).
          room r = roomId \<and> calendar_date (reservationDate r) = calendar_date d
          \<and> (status r = Pending \<or> status r = Confirmed)
          \<and> (\<forall>x. excludeId = Some x \<longrightarrow> reservation_id r \<noteq> x)
          \<and> \<not> (minute_of_day e \<le> minute_of_day (startTime r)
                \<or> minute_of_day s \<ge> minute_of_day (endTime r)))"
    unfolding checkBookingConflict_strings using t dt by meson
  show ?thesis
    unfolding main by auto
qed

theorem checkBookingConflict_iff_interval_overlap_witness:
  "checkBookingConflict example_booked 1 0 ''15:00'' ''17:00'' None
   \<and> \<not> checkBookingConflict example_booked 1 0 ''16:00'' ''17:00'' None
   \<and> \<not> checkBookingConflict example_booked 1 0 ''15:00'' ''17:00'' (Some 1)"
proof -
  have w: "wf_time ''15:00''" "wf_time ''16:00''" "wf_time ''17:00''" "is_calendar_date 0"
    by (simp_all add: wf_time_def is_digit_def is_calendar_date_def)
  have db: "\<forall>r\<in>set (reservations example_booked).
           wf_time (startTime r) \<and> wf_time (endTime r) \<and> is_calendar_date (reservationDate r)"
    by (simp add: example_booked_def example_reservation_def wf_time_def is_digit_def
          is_calendar_date_def)
  have m: "minute_of_day ''14:00'' = 840" "minute_of_day ''15:00'' = 900"
    "minute_of_day ''16:00'' = 960" "minute_of_day ''17:00'' = 1020"
    by (simp_all add: minute_of_day_def digit_value_def)
  show ?thesis
    using checkBookingConflict_iff_interval_overlap [OF w(1) w(3) w(4) db, of 1 None]
      checkBookingConflict_iff_interval_overlap [OF w(2) w(3) w(4) db, of 1 None]
      checkBookingConflict_iff_interval_overlap [OF w(1) w(3) w(4) db, of 1 "Some 1"]
    by (simp add: example_booked_def example_reservation_def m calendar_date_def)
qed

text \<open>
  The format matters. The room is booked from 14:00 to 16:00 (minutes 840 to 960); the
  proposal from 9:00 to 15:00, which the handler takes for the minutes 540 to 900 and
  for a duration of 360, overlaps it, and the checker, comparing the strings, answers
  that there is no conflict: the handler stores the second reservation.
\<close>

theorem checkBookingConflict_unpadded_counterexample:
  "reservations example_booked = [example_reservation]
   \<and> room example_reservation = 1 \<and> reservationDate example_reservation = 0
   \<and> status example_reservation = Pending
   \<and> minutes (startTime example_reservation) = Finite 840
   \<and> minutes (endTime example_reservation) = Finite 960
   \<and> minutes ''9:00'' = Finite 540 \<and> minutes ''15:00'' = Finite 900
   \<and> compute_duration ''9:00'' ''15:00'' = Finite 360
   \<and> \<not> checkBookingConflict example_booked 1 0 ''9:00'' ''15:00'' None
   \<and> fst (createReservation example_booked example_user
              (example_body\<lparr>body_startTime := ''9:00'', body_endTime := ''15:00''\<rparr>)) =
       Inr (example_reservation\<lparr>reservation_id := 2, startTime := ''9:00'',
              endTime := ''15:00'', duration := Finite 360\<rparr>)"
  by (simp add: example_booked_def example_reservation_def example_db_def example_room_def
        example_user_def example_body_def example_minutes example_durations
        checkBookingConflict_def conflict_query_def createReservation_def Room_findById_def
        Building_findById_def truthy_str_def truthy_num_def purpose_enum_def fresh_id_def
        trim_def Let_def numeral_2_eq_2)

section \<open>Lookups and saves\<close>

lemma fold_max_ge: "a \<le> fold max ids (a::nat)"
  by (induction ids arbitrary: a) (auto intro: order_trans [OF max.cobounded2])

lemma fold_max_mem: "x \<in> set ids \<Longrightarrow> x \<le> fold max ids (a::nat)"
proof (induction ids arbitrary: a)
  case Nil
  then show ?case by simp
next
  case (Cons y ys)
  show ?case
  proof (cases "x = y")
    case True
    have "y \<le> max y a" by simp
    also have "\<dots> \<le> fold max ys (max y a)" by (rule fold_max_ge)
    finally show ?thesis using True by simp
  next
    case False
    with Cons show ?thesis by simp
  qed
qed

lemma fresh_id_notin: "fresh_id ids \<notin> set ids"
  using fold_max_mem [of "fresh_id ids" ids 0] by (auto simp: fresh_id_def)

lemma find_replace_same:
  "find (\<lambda>x. f x = i) xs = Some y \<Longrightarrow> f r = i \<Longrightarrow>
   find (\<lambda>x. f x = i) (map (\<lambda>x. if f x = i then r else x) xs) = Some r"
  by (induction xs) (auto split: if_splits)

lemma find_replace_other:
  "f r = j \<Longrightarrow> i \<noteq> j \<Longrightarrow>
   find (\<lambda>x. f x = i) (map (\<lambda>x. if f x = j then r else x) xs) = find (\<lambda>x. f x = i) xs"
  by (induction xs) (auto split: if_splits)

lemma find_id_Some: "find (\<lambda>x. f x = i) xs = Some y \<Longrightarrow> f y = i"
  by (induction xs) (auto split: if_splits)

lemma Reservation_findById_id: "Reservation_findById db i = Some r \<Longrightarrow> reservation_id r = i"
  unfolding Reservation_findById_def by (rule find_id_Some)

lemma Reservation_findById_save:
  "Reservation_findById db i = Some r \<Longrightarrow> reservation_id r' = i \<Longrightarrow>
   Reservation_findById (Reservation_save r' db) i = Some r'"
  unfolding Reservation_findById_def Reservation_save_def
  by (simp add: find_replace_same)

section \<open>Cancelling\<close>

text \<open>
  C8. A cancellation by the owner or by an administrator of a reservation that is pending
  or confirmed sets the status to cancelled and records the time, the caller and the
  reason (the empty string when none is given, trimmed by the schema), and the stored
  document is the answered one; for every other status the call answers with the
  validation error and the database is unchanged.
\<close>

theorem cancelReservation_by_status:
  assumes "Reservation_findById db rid = Some r"
    and "user r = userId caller \<or> role caller = ''admin''"
  shows "(status r = Pending \<or> status r = Confirmed \<longrightarrow>
            (\<exists>r' db'. cancelReservation db now caller rid reason = (Inr r', db')
               \<and> Reservation_findById db' rid = Some r'
               \<and> r' = r\<lparr>status := Cancelled, cancelledAt := Some now,
                         cancelledBy := Some (userId caller),
                         cancelReason := Some (trim (or_str reason []))\<rparr>))
       \<and> (\<not> (status r = Pending \<or> status r = Confirmed) \<longrightarrow>
            cancelReservation db now caller rid reason =
              (Inl (ValidationError
                 (Message ''Cannot cancel completed or already cancelled reservations'')), db))"
proof -
  have rid: "reservation_id r = rid" using assms(1) by (rule Reservation_findById_id)
  show ?thesis
    using assms rid
    by (auto simp: cancelReservation_def Let_def Reservation_findById_save)
qed

theorem cancelReservation_by_status_witness:
  "fst (cancelReservation example_booked 5 example_user 1 ''ill'') =
     Inr (example_reservation\<lparr>status := Cancelled, cancelledAt := Some 5,
            cancelledBy := Some 7, cancelReason := Some ''ill''\<rparr>)
   \<and> cancelReservation
         (example_db\<lparr>reservations := [example_reservation\<lparr>status := Completed\<rparr>]\<rparr>)
         5 example_user 1 ''ill'' =
       (Inl (ValidationError
          (Message ''Cannot cancel completed or already cancelled reservations'')),
        example_db\<lparr>reservations := [example_reservation\<lparr>status := Completed\<rparr>]\<rparr>)"
proof -
  have h1: "Reservation_findById example_booked 1 = Some example_reservation"
    by (simp add: Reservation_findById_def example_booked_def example_reservation_def)
  have h2: "user example_reservation = userId example_user \<or> role example_user = ''admin''"
    by (simp add: example_reservation_def example_user_def)
  have h3: "Reservation_findById
              (example_db\<lparr>reservations := [example_reservation\<lparr>status := Completed\<rparr>]\<rparr>) 1 =
            Some (example_reservation\<lparr>status := Completed\<rparr>)"
    by (simp add: Reservation_findById_def example_reservation_def)
  have h4: "user (example_reservation\<lparr>status := Completed\<rparr>) = userId example_user
            \<or> role example_user = ''admin''"
    by (simp add: example_reservation_def example_user_def)
  have t: "trim (or_str ''ill'' []) = ''ill''"
    by (simp add: trim_def or_str_def truthy_str_def is_space_def)
  show ?thesis
    using cancelReservation_by_status [OF h1 h2, of 5 "''ill''"]
      cancelReservation_by_status [OF h3 h4, of 5 "''ill''"]
    by (auto simp: t example_reservation_def example_user_def)
qed

section \<open>Check-in and check-out\<close>

text \<open>
  C6. When a reservation has an active sign-in, a further check-in for it by its owner is
  answered with a validation error and the database is unchanged (no sign-in is added
  and no occupancy changes); while the reservation is pending or confirmed and the
  request names a room and a building, the error is "Already checked in for this
  reservation".
\<close>

theorem checkIn_twice_rejected:
  assumes "Reservation_findById db rid = Some r"
    and "user r = userId caller"
    and "\<exists>s\<in>set (signIns db). signIn_reservation s = rid \<and> signIn_status s = SignInActive"
  shows "(\<exists>m. checkIn db now caller (Some rid) roomArg buildingArg notesArg =
                 (Inl (ValidationError m), db))
       \<and> ((status r = Pending \<or> status r = Confirmed)
             \<and> roomArg \<noteq> None \<and> buildingArg \<noteq> None \<longrightarrow>
           checkIn db now caller (Some rid) roomArg buildingArg notesArg =
             (Inl (ValidationError (Message ''Already checked in for this reservation'')), db))"
proof -
  from assms(3) obtain s where
    "find (\<lambda>s. signIn_reservation s = rid \<and> signIn_status s = SignInActive) (signIns db) = Some s"
    by (cases "find (\<lambda>s. signIn_reservation s = rid \<and> signIn_status s = SignInActive) (signIns db)")
       (auto simp: find_None_iff)
  then show ?thesis
    using assms(1,2)
    by (cases roomArg; cases buildingArg) (auto simp: checkIn_def)
qed

theorem checkIn_twice_rejected_witness:
  "checkIn example_checked_in 2000 example_user (Some 1) (Some 1) (Some 1) [] =
     (Inl (ValidationError (Message ''Already checked in for this reservation'')),
      example_checked_in)"
proof -
  have h1: "Reservation_findById example_checked_in 1 = Some example_reservation"
    by (simp add: Reservation_findById_def example_checked_in_def example_booked_def
          example_reservation_def)
  have h2: "user example_reservation = userId example_user"
    by (simp add: example_reservation_def example_user_def)
  have h3: "\<exists>s\<in>set (signIns example_checked_in).
              signIn_reservation s = 1 \<and> signIn_status s = SignInActive"
    by (simp add: example_checked_in_def example_signIn_def)
  show ?thesis
    using checkIn_twice_rejected [OF h1 h2 h3, of 2000 "Some 1" "Some 1" "[]"]
    by (simp add: example_reservation_def)
qed

lemma Room_findById_id: "Room_findById db i = Some r \<Longrightarrow> room_id r = i"
  unfolding Room_findById_def by (rule find_id_Some)

lemma SignIn_findById_id: "SignIn_findById db i = Some s \<Longrightarrow> signIn_id s = i"
  unfolding SignIn_findById_def by (rule find_id_Some)

lemma Room_save_Some:
  "Room_save now r db = Some db' \<longleftrightarrow>
     0 \<le> currentOccupancy r
     \<and> db' = db\<lparr>rooms := map (\<lambda>x. if room_id x = room_id r then Room_preSave now r else x) (rooms db)\<rparr>"
  by (auto simp: Room_save_def)

lemma Room_findById_save:
  assumes "Room_findById db i = Some r0" and "room_id r = i" and "Room_save now r db = Some db'"
  shows "Room_findById db' i = Some (Room_preSave now r)"
proof -
  have "room_id (Room_preSave now r) = i" using assms(2) by (simp add: Room_preSave_def)
  then show ?thesis
    using assms find_replace_same [of room_id i "rooms db" r0 "Room_preSave now r"]
    by (auto simp: Room_save_Some Room_findById_def)
qed

lemma Room_save_others:
  "Room_save now r db = Some db' \<Longrightarrow>
     reservations db' = reservations db \<and> signIns db' = signIns db \<and> buildings db' = buildings db"
  by (auto simp: Room_save_Some)

lemma Room_preSave_status:
  "(0 < currentOccupancy (Room_preSave now r) \<longrightarrow> occupancyStatus (Room_preSave now r) = Occupied)
   \<and> (currentOccupancy (Room_preSave now r) \<le> 0 \<longrightarrow>
        occupancyStatus (Room_preSave now r) =
          (if occupancyStatus r = Maintenance then Maintenance else Available))
   \<and> currentOccupancy (Room_preSave now r) = currentOccupancy r
   \<and> room_id (Room_preSave now r) = room_id r \<and> capacity (Room_preSave now r) = capacity r"
  by (simp add: Room_preSave_def)

text \<open>What a successful check-in did.\<close>

lemma checkIn_Inr:
  assumes "checkIn db now caller reservation roomArg buildingArg notesArg = (Inr x, db')"
  shows "\<exists>rid roomId buildingId r rm s.
           reservation = Some rid \<and> roomArg = Some roomId \<and> buildingArg = Some buildingId
           \<and> Reservation_findById db rid = Some r \<and> user r = userId caller
           \<and> (status r = Pending \<or> status r = Confirmed)
           \<and> Room_findById db roomId = Some rm
           \<and> s = \<lparr>signIn_id = fresh_id (map signIn_id (signIns db)),
                   signIn_user = userId caller, signIn_reservation = rid,
                   signIn_room = roomId, signIn_building = buildingId, signInTime = now,
                   signOutTime = None, actualDuration = None,
                   signIn_notes = trim (or_str notesArg []), signIn_status = SignInActive\<rparr>
           \<and> Room_save now (rm\<lparr>currentOccupancy := or_num (currentOccupancy rm) 0 + 1\<rparr>)
                 (db\<lparr>signIns := signIns db @ [s]\<rparr>) = Some db'
           \<and> x = (signIn_id s, now, or_num (currentOccupancy rm) 0 + 1)"
  using assms
  by (auto simp: checkIn_def SignIn_insert_def SignIn_preSave_def Let_def Room_findById_def
           split: option.splits if_splits)

lemma SignIn_findById_save:
  assumes "SignIn_findById db i = Some s0" and "signIn_id s = i"
  shows "SignIn_findById (snd (SignIn_save s db)) i = Some (SignIn_preSave s)
         \<and> fst (SignIn_save s db) = SignIn_preSave s
         \<and> rooms (snd (SignIn_save s db)) = rooms db
         \<and> reservations (snd (SignIn_save s db)) = reservations db"
proof -
  have "signIn_id (SignIn_preSave s) = i"
    using assms(2) by (simp add: SignIn_preSave_def split: option.splits)
  then show ?thesis
    using assms find_replace_same [of signIn_id i "signIns db" s0 "SignIn_preSave s"]
    by (simp add: SignIn_save_def SignIn_findById_def Let_def)
qed

lemma or_num_dec: "max 0 (or_num n 1 - 1) = max 0 (n - 1)"
  by (simp add: or_num_def truthy_num_def)

text \<open>What a check-out by the owner of an active sign-in does when the room exists.\<close>

lemma checkOut_active:
  assumes s0: "SignIn_findById db sid = Some s0"
    and own: "signIn_user s0 = userId caller"
    and act: "signIn_status s0 = SignInActive"
    and rm: "Room_findById db (signIn_room s0) = Some rm"
  shows "\<exists>s1 db1 db2.
           s1 = s0\<lparr>signOutTime := Some now, signIn_status := SignInCompleted,
                   signIn_notes := (if truthy_str notesArg then trim notesArg else signIn_notes s0),
                   actualDuration := Some (Math_round_div (now - signInTime s0) 60000)\<rparr>
         \<and> db1 = snd (SignIn_save s1 db)
         \<and> Room_save now (rm\<lparr>currentOccupancy := max 0 (currentOccupancy rm - 1)\<rparr>) db1 = Some db2
         \<and> checkOut db now caller sid notesArg =
             (Inr (sid, Some now, Some (Math_round_div (now - signInTime s0) 60000),
                   max 0 (currentOccupancy rm - 1)),
              (case Reservation_findById db (signIn_reservation s0) of
                 None \<Rightarrow> db2
               | Some r \<Rightarrow>
                   Reservation_save (r\<lparr>status := Completed, checkInTime := Some (signInTime s0),
                                       checkOutTime := Some now\<rparr>) db2))"
proof -
  define s1 where "s1 = s0\<lparr>signOutTime := Some now, signIn_status := SignInCompleted,
                   signIn_notes := (if truthy_str notesArg then trim notesArg else signIn_notes s0),
                   actualDuration := Some (Math_round_div (now - signInTime s0) 60000)\<rparr>"
  define pre where "pre = (if truthy_str notesArg
        then s0\<lparr>signOutTime := Some now, signIn_status := SignInCompleted, signIn_notes := trim notesArg\<rparr>
        else s0\<lparr>signOutTime := Some now, signIn_status := SignInCompleted\<rparr>)"
  have sid: "signIn_id s0 = sid" using s0 by (rule SignIn_findById_id)
  have pre_s1: "SignIn_preSave pre = s1" and s1_s1: "SignIn_preSave s1 = s1"
    by (simp_all add: pre_def s1_def SignIn_preSave_def)
  have pre_id: "signIn_id pre = sid" by (simp add: pre_def sid)
  have same: "SignIn_save pre db = SignIn_save s1 db"
    by (simp add: SignIn_save_def pre_s1 s1_s1 Let_def pre_id) (simp add: s1_def sid)
  define db1 where "db1 = snd (SignIn_save s1 db)"
  have sv: "SignIn_save pre db = (s1, db1)"
    by (simp add: same db1_def) (simp add: SignIn_save_def s1_s1 Let_def)
  have rooms1: "rooms db1 = rooms db" and res1: "reservations db1 = reservations db"
    by (simp_all add: db1_def SignIn_save_def Let_def)
  have rm1: "Room_findById db1 (signIn_room s0) = Some rm"
    using rm by (simp add: Room_findById_def rooms1)
  define rm' where "rm' = rm\<lparr>currentOccupancy := max 0 (currentOccupancy rm - 1)\<rparr>"
  obtain db2 where db2: "Room_save now rm' db1 = Some db2"
    by (simp add: Room_save_def rm'_def)
  have res2: "reservations db2 = reservations db"
    using Room_save_others [OF db2] res1 by simp
  have find2: "Reservation_findById db2 i = Reservation_findById db i" for i
    by (simp add: Reservation_findById_def res2)
  have room_s1: "signIn_room s1 = signIn_room s0" "signIn_reservation s1 = signIn_reservation s0"
    "signIn_id s1 = sid" "signOutTime s1 = Some now" "signInTime s1 = signInTime s0"
    "actualDuration s1 = Some (Math_round_div (now - signInTime s0) 60000)"
    by (simp_all add: s1_def sid)
  have "checkOut db now caller sid notesArg =
             (Inr (sid, Some now, Some (Math_round_div (now - signInTime s0) 60000),
                   max 0 (currentOccupancy rm - 1)),
              (case Reservation_findById db (signIn_reservation s0) of
                 None \<Rightarrow> db2
               | Some r \<Rightarrow>
                   Reservation_save (r\<lparr>status := Completed, checkInTime := Some (signInTime s0),
                                       checkOutTime := Some now\<rparr>) db2))"
    unfolding checkOut_def
    using s0 own act sv rm1 db2
    by (simp add: Let_def pre_def [symmetric] room_s1 or_num_dec rm'_def find2
             split: option.splits)
  then show ?thesis
    using db2 by (auto simp: s1_def db1_def rm'_def)
qed

text \<open>
  C10. A check-out by the owner of an active sign-in whose reservation is not in the
  database succeeds when the room of the sign-in exists: the sign-in is stored as
  completed with its sign-out time and its duration in minutes, the occupancy of the
  room goes down by one, not below 0, and the reservations are untouched.
\<close>

theorem checkOut_without_reservation:
  assumes "SignIn_findById db sid = Some s"
    and "signIn_user s = userId caller"
    and "signIn_status s = SignInActive"
    and "Reservation_findById db (signIn_reservation s) = None"
    and "Room_findById db (signIn_room s) = Some rm"
  shows "\<exists>db' s' rm'.
           checkOut db now caller sid notesArg =
             (Inr (sid, Some now, Some (Math_round_div (now - signInTime s) 60000),
                   max 0 (currentOccupancy rm - 1)), db')
           \<and> SignIn_findById db' sid = Some s'
           \<and> signIn_status s' = SignInCompleted \<and> signOutTime s' = Some now
           \<and> actualDuration s' = Some (Math_round_div (now - signInTime s) 60000)
           \<and> Room_findById db' (signIn_room s) = Some rm'
           \<and> currentOccupancy rm' = max 0 (currentOccupancy rm - 1)
           \<and> reservations db' = reservations db"
proof -
  from checkOut_active [OF assms(1,2,3,5), of now notesArg]
  obtain s1 db1 db2 where
    s1: "s1 = s\<lparr>signOutTime := Some now, signIn_status := SignInCompleted,
                 signIn_notes := (if truthy_str notesArg then trim notesArg else signIn_notes s),
                 actualDuration := Some (Math_round_div (now - signInTime s) 60000)\<rparr>"
    and db1: "db1 = snd (SignIn_save s1 db)"
    and db2: "Room_save now (rm\<lparr>currentOccupancy := max 0 (currentOccupancy rm - 1)\<rparr>) db1 = Some db2"
    and out: "checkOut db now caller sid notesArg =
             (Inr (sid, Some now, Some (Math_round_div (now - signInTime s) 60000),
                   max 0 (currentOccupancy rm - 1)), db2)"
    using assms(4) by auto
  have sid: "signIn_id s1 = sid" using SignIn_findById_id [OF assms(1)] by (simp add: s1)
  have pre: "SignIn_preSave s1 = s1" by (simp add: s1 SignIn_preSave_def)
  have f1: "SignIn_findById db1 sid = Some s1"
    using SignIn_findById_save [OF assms(1) sid] by (simp add: db1 pre)
  have f2: "SignIn_findById db2 sid = Some s1"
    using f1 Room_save_others [OF db2] by (simp add: SignIn_findById_def)
  have r1: "Room_findById db1 (signIn_room s) = Some rm"
    using assms(5) SignIn_findById_save [OF assms(1) sid] by (simp add: db1 Room_findById_def)
  have rid: "room_id (rm\<lparr>currentOccupancy := max 0 (currentOccupancy rm - 1)\<rparr>) = signIn_room s"
    using Room_findById_id [OF assms(5)] by simp
  have r2: "Room_findById db2 (signIn_room s) =
              Some (Room_preSave now (rm\<lparr>currentOccupancy := max 0 (currentOccupancy rm - 1)\<rparr>))"
    by (rule Room_findById_save [OF r1 rid db2])
  have res: "reservations db2 = reservations db"
    using Room_save_others [OF db2] SignIn_findById_save [OF assms(1) sid] by (simp add: db1)
  show ?thesis
    using out f2 r2 res by (simp add: s1 Room_preSave_status)
qed

theorem checkOut_without_reservation_witness:
  "\<exists>db'. checkOut example_orphan 91000 example_user 1 [] =
            (Inr (1, Some 91000, Some 2, 0), db')
         \<and> reservations db' = []"
proof -
  have h1: "SignIn_findById example_orphan 1 = Some example_signIn"
    by (simp add: SignIn_findById_def example_orphan_def example_signIn_def)
  have h2: "signIn_user example_signIn = userId example_user"
    by (simp add: example_signIn_def example_user_def)
  have h3: "signIn_status example_signIn = SignInActive"
    by (simp add: example_signIn_def)
  have h4: "Reservation_findById example_orphan (signIn_reservation example_signIn) = None"
    by (simp add: Reservation_findById_def example_orphan_def example_db_def)
  have h5: "Room_findById example_orphan (signIn_room example_signIn) = Some example_room"
    by (simp add: Room_findById_def example_orphan_def example_db_def example_signIn_def
          example_room_def)
  show ?thesis
    using checkOut_without_reservation [OF h1 h2 h3 h4 h5, of 91000 "[]"]
    by (auto simp: example_signIn_def example_room_def Math_round_div_def example_orphan_def
          example_db_def)
qed

lemma Reservation_save_others:
  "rooms (Reservation_save r db) = rooms db \<and> signIns (Reservation_save r db) = signIns db"
  by (simp add: Reservation_save_def)

text \<open>The state after a check-out by the owner of an active sign-in, read by id.\<close>

lemma checkOut_effect:
  assumes s0: "SignIn_findById db sid = Some s0"
    and own: "signIn_user s0 = userId caller"
    and act: "signIn_status s0 = SignInActive"
    and rm: "Room_findById db (signIn_room s0) = Some rm"
  shows "\<exists>db'. checkOut db now caller sid notesArg =
             (Inr (sid, Some now, Some (Math_round_div (now - signInTime s0) 60000),
                   max 0 (currentOccupancy rm - 1)), db')
         \<and> SignIn_findById db' sid =
             Some (s0\<lparr>signOutTime := Some now, signIn_status := SignInCompleted,
                   signIn_notes := (if truthy_str notesArg then trim notesArg else signIn_notes s0),
                   actualDuration := Some (Math_round_div (now - signInTime s0) 60000)\<rparr>)
         \<and> Room_findById db' (signIn_room s0) =
             Some (Room_preSave now (rm\<lparr>currentOccupancy := max 0 (currentOccupancy rm - 1)\<rparr>))
         \<and> Reservation_findById db' (signIn_reservation s0) =
             map_option (\<lambda>r. r\<lparr>status := Completed, checkInTime := Some (signInTime s0),
                                 checkOutTime := Some now\<rparr>)
               (Reservation_findById db (signIn_reservation s0))"
proof -
  from checkOut_active [OF s0 own act rm, of now notesArg]
  obtain s1 db1 db2 where
    s1: "s1 = s0\<lparr>signOutTime := Some now, signIn_status := SignInCompleted,
                 signIn_notes := (if truthy_str notesArg then trim notesArg else signIn_notes s0),
                 actualDuration := Some (Math_round_div (now - signInTime s0) 60000)\<rparr>"
    and db1: "db1 = snd (SignIn_save s1 db)"
    and db2: "Room_save now (rm\<lparr>currentOccupancy := max 0 (currentOccupancy rm - 1)\<rparr>) db1 = Some db2"
    and out: "checkOut db now caller sid notesArg =
             (Inr (sid, Some now, Some (Math_round_div (now - signInTime s0) 60000),
                   max 0 (currentOccupancy rm - 1)),
              (case Reservation_findById db (signIn_reservation s0) of
                 None \<Rightarrow> db2
               | Some r \<Rightarrow>
                   Reservation_save (r\<lparr>status := Completed, checkInTime := Some (signInTime s0),
                                       checkOutTime := Some now\<rparr>) db2))"
    by auto
  define db' where "db' = (case Reservation_findById db (signIn_reservation s0) of
                 None \<Rightarrow> db2
               | Some r \<Rightarrow>
                   Reservation_save (r\<lparr>status := Completed, checkInTime := Some (signInTime s0),
                                       checkOutTime := Some now\<rparr>) db2)"
  have sid: "signIn_id s1 = sid" using SignIn_findById_id [OF s0] by (simp add: s1)
  have pre: "SignIn_preSave s1 = s1" by (simp add: s1 SignIn_preSave_def)
  have f1: "SignIn_findById db1 sid = Some s1"
    using SignIn_findById_save [OF s0 sid] by (simp add: db1 pre)
  have f2: "SignIn_findById db2 sid = Some s1"
    using f1 Room_save_others [OF db2] by (simp add: SignIn_findById_def)
  have f3: "SignIn_findById db' sid = Some s1"
    using f2 by (simp add: db'_def SignIn_findById_def Reservation_save_others split: option.splits)
  have r1: "Room_findById db1 (signIn_room s0) = Some rm"
    using rm SignIn_findById_save [OF s0 sid] by (simp add: db1 Room_findById_def)
  have rid: "room_id (rm\<lparr>currentOccupancy := max 0 (currentOccupancy rm - 1)\<rparr>) = signIn_room s0"
    using Room_findById_id [OF rm] by simp
  have r2: "Room_findById db2 (signIn_room s0) =
              Some (Room_preSave now (rm\<lparr>currentOccupancy := max 0 (currentOccupancy rm - 1)\<rparr>))"
    by (rule Room_findById_save [OF r1 rid db2])
  have r3: "Room_findById db' (signIn_room s0) =
              Some (Room_preSave now (rm\<lparr>currentOccupancy := max 0 (currentOccupancy rm - 1)\<rparr>))"
    using r2 by (simp add: db'_def Room_findById_def Reservation_save_others split: option.splits)
  have res: "reservations db2 = reservations db"
    using Room_save_others [OF db2] SignIn_findById_save [OF s0 sid] by (simp add: db1)
  have find2: "Reservation_findById db2 i = Reservation_findById db i" for i
    by (simp add: Reservation_findById_def res)
  have q: "Reservation_findById db' (signIn_reservation s0) =
             map_option (\<lambda>r. r\<lparr>status := Completed, checkInTime := Some (signInTime s0),
                                 checkOutTime := Some now\<rparr>)
               (Reservation_findById db (signIn_reservation s0))"
  proof (cases "Reservation_findById db (signIn_reservation s0)")
    case None
    then show ?thesis by (simp add: db'_def find2)
  next
    case (Some r)
    have i: "reservation_id r = signIn_reservation s0"
      using Some by (rule Reservation_findById_id)
    have "Reservation_findById db2 (signIn_reservation s0) = Some r"
      using Some by (simp add: find2)
    from Reservation_findById_save [OF this, of "r\<lparr>status := Completed,
        checkInTime := Some (signInTime s0), checkOutTime := Some now\<rparr>"]
    show ?thesis using Some i by (simp add: db'_def)
  qed
  show ?thesis
    using out f3 r3 q unfolding db'_def [symmetric] s1 by blast
qed

lemma checkOut_Inr:
  assumes "checkOut db now caller sid notesArg = (Inr y, db')"
  shows "\<exists>s rm. SignIn_findById db sid = Some s \<and> signIn_user s = userId caller
           \<and> signIn_status s = SignInActive \<and> Room_findById db (signIn_room s) = Some rm"
  using assms
  by (auto simp: checkOut_def SignIn_save_def SignIn_preSave_def Let_def Room_findById_def
           split: option.splits if_splits)

lemma find_append_fresh:
  "find (\<lambda>x. f x = i) xs = None \<Longrightarrow> f y = i \<Longrightarrow> find (\<lambda>x. f x = i) (xs @ [y]) = Some y"
  by (induction xs) (auto split: if_splits)

lemma find_fresh_None: "find (\<lambda>x. f x = fresh_id (map f xs)) xs = None"
proof -
  have "f x \<noteq> fresh_id (map f xs)" if "x \<in> set xs" for x
  proof -
    from that have "f x \<in> set (map f xs)" by simp
    then show ?thesis using fresh_id_notin [of "map f xs"] by metis
  qed
  then show ?thesis by (simp add: find_None_iff)
qed

lemma Room_preSave_derived:
  assumes "occupancyStatus u = occupancyStatus rm" and "0 \<le> currentOccupancy u"
  shows "0 \<le> currentOccupancy (Room_preSave now u)
     \<and> (0 < currentOccupancy (Room_preSave now u) \<longrightarrow>
          occupancyStatus (Room_preSave now u) = Occupied)
     \<and> (currentOccupancy (Room_preSave now u) = 0 \<longrightarrow>
          occupancyStatus (Room_preSave now u) =
            (if occupancyStatus rm = Maintenance then Maintenance else Available))"
  using assms by (simp add: Room_preSave_def)

text \<open>The state after a successful check-in, read by id.\<close>

lemma checkIn_effect:
  assumes "checkIn db now caller reservation roomArg buildingArg notesArg = (Inr x, db')"
  shows "\<exists>rid roomId r rm sid s.
           reservation = Some rid \<and> roomArg = Some roomId
           \<and> Reservation_findById db rid = Some r \<and> user r = userId caller
           \<and> Room_findById db roomId = Some rm
           \<and> x = (sid, now, or_num (currentOccupancy rm) 0 + 1)
           \<and> 0 \<le> or_num (currentOccupancy rm) 0 + 1
           \<and> SignIn_findById db' sid = Some s
           \<and> signIn_user s = userId caller \<and> signIn_reservation s = rid
           \<and> signIn_room s = roomId \<and> signInTime s = now \<and> signIn_status s = SignInActive
           \<and> Room_findById db' roomId =
               Some (Room_preSave now (rm\<lparr>currentOccupancy := or_num (currentOccupancy rm) 0 + 1\<rparr>))
           \<and> reservations db' = reservations db"
proof -
  from checkIn_Inr [OF assms]
  obtain rid roomId buildingId r rm s where
    a: "reservation = Some rid" "roomArg = Some roomId"
      "Reservation_findById db rid = Some r" "user r = userId caller"
      "Room_findById db roomId = Some rm"
    and s: "s = \<lparr>signIn_id = fresh_id (map signIn_id (signIns db)),
                   signIn_user = userId caller, signIn_reservation = rid,
                   signIn_room = roomId, signIn_building = buildingId, signInTime = now,
                   signOutTime = None, actualDuration = None,
                   signIn_notes = trim (or_str notesArg []), signIn_status = SignInActive\<rparr>"
    and sv: "Room_save now (rm\<lparr>currentOccupancy := or_num (currentOccupancy rm) 0 + 1\<rparr>)
                 (db\<lparr>signIns := signIns db @ [s]\<rparr>) = Some db'"
    and x: "x = (signIn_id s, now, or_num (currentOccupancy rm) 0 + 1)"
    by blast
  have nonneg: "0 \<le> or_num (currentOccupancy rm) 0 + 1"
    using sv by (simp add: Room_save_Some)
  have sid: "signIn_id s = fresh_id (map signIn_id (signIns db))" by (simp add: s)
  have "find (\<lambda>x. signIn_id x = signIn_id s) (signIns db @ [s]) = Some s"
    by (rule find_append_fresh) (simp_all add: sid find_fresh_None)
  then have f: "SignIn_findById db' (signIn_id s) = Some s"
    using Room_save_others [OF sv] by (simp add: SignIn_findById_def)
  have r0: "Room_findById (db\<lparr>signIns := signIns db @ [s]\<rparr>) roomId = Some rm"
    using a(5) by (simp add: Room_findById_def)
  have rid: "room_id (rm\<lparr>currentOccupancy := or_num (currentOccupancy rm) 0 + 1\<rparr>) = roomId"
    using Room_findById_id [OF a(5)] by simp
  have r1: "Room_findById db' roomId =
              Some (Room_preSave now (rm\<lparr>currentOccupancy := or_num (currentOccupancy rm) 0 + 1\<rparr>))"
    by (rule Room_findById_save [OF r0 rid sv])
  have res: "reservations db' = reservations db"
    using Room_save_others [OF sv] by simp
  show ?thesis
    using a x nonneg f r1 res by (simp add: s)
qed

lemmas example_defs = example_room_def example_db_def example_user_def example_body_def
  example_reservation_def example_booked_def example_patch_def example_signIn_def
  example_orphan_def example_checked_in_def example_two_def

lemmas handler_defs = checkIn_def checkOut_def SignIn_insert_def SignIn_save_def SignIn_preSave_def
  Room_save_def Room_preSave_def Room_findById_def Reservation_findById_def SignIn_findById_def
  Reservation_save_def fresh_id_def or_num_def truthy_num_def trim_def or_str_def truthy_str_def
  Math_round_div_def Let_def

text \<open>
  C9. After the room save of a check-in or of a check-out (the calls that answer with
  success are those that saved the room), the stored room has a non-negative occupancy,
  its status is occupied when the occupancy is positive, and when the occupancy is 0 it
  is available unless the status was maintenance before, which it then stays.
\<close>

theorem occupancyStatus_after_room_save:
  "(checkIn db now caller reservation (Some roomId) buildingArg notesArg = (Inr x, db') \<longrightarrow>
      (\<exists>rm rm'. Room_findById db roomId = Some rm \<and> Room_findById db' roomId = Some rm'
         \<and> 0 \<le> currentOccupancy rm'
         \<and> (0 < currentOccupancy rm' \<longrightarrow> occupancyStatus rm' = Occupied)
         \<and> (currentOccupancy rm' = 0 \<longrightarrow>
              occupancyStatus rm' =
                (if occupancyStatus rm = Maintenance then Maintenance else Available))))
   \<and> (checkOut db now caller sid notesArg = (Inr y, db') \<longrightarrow>
      (\<exists>s rm rm'. SignIn_findById db sid = Some s
         \<and> Room_findById db (signIn_room s) = Some rm
         \<and> Room_findById db' (signIn_room s) = Some rm'
         \<and> 0 \<le> currentOccupancy rm'
         \<and> (0 < currentOccupancy rm' \<longrightarrow> occupancyStatus rm' = Occupied)
         \<and> (currentOccupancy rm' = 0 \<longrightarrow>
              occupancyStatus rm' =
                (if occupancyStatus rm = Maintenance then Maintenance else Available))))"
proof (intro conjI impI)
  assume "checkIn db now caller reservation (Some roomId) buildingArg notesArg = (Inr x, db')"
  from checkIn_effect [OF this]
  obtain rm where rm: "Room_findById db roomId = Some rm"
    and nn: "0 \<le> or_num (currentOccupancy rm) 0 + 1"
    and rm': "Room_findById db' roomId =
               Some (Room_preSave now (rm\<lparr>currentOccupancy := or_num (currentOccupancy rm) 0 + 1\<rparr>))"
    by auto
  show "\<exists>rm rm'. Room_findById db roomId = Some rm \<and> Room_findById db' roomId = Some rm'
         \<and> 0 \<le> currentOccupancy rm'
         \<and> (0 < currentOccupancy rm' \<longrightarrow> occupancyStatus rm' = Occupied)
         \<and> (currentOccupancy rm' = 0 \<longrightarrow>
              occupancyStatus rm' =
                (if occupancyStatus rm = Maintenance then Maintenance else Available))"
    using rm rm' Room_preSave_derived
        [of "rm\<lparr>currentOccupancy := or_num (currentOccupancy rm) 0 + 1\<rparr>" rm now] nn
    by (intro exI [of _ rm]
          exI [of _ "Room_preSave now (rm\<lparr>currentOccupancy := or_num (currentOccupancy rm) 0 + 1\<rparr>)"])
       simp
next
  assume out: "checkOut db now caller sid notesArg = (Inr y, db')"
  from checkOut_Inr [OF this]
  obtain s rm where s: "SignIn_findById db sid = Some s" "signIn_user s = userId caller"
      "signIn_status s = SignInActive" and rm: "Room_findById db (signIn_room s) = Some rm"
    by blast
  from checkOut_effect [OF s rm, of now notesArg] out
  have rm': "Room_findById db' (signIn_room s) =
             Some (Room_preSave now (rm\<lparr>currentOccupancy := max 0 (currentOccupancy rm - 1)\<rparr>))"
    by auto
  show "\<exists>s rm rm'. SignIn_findById db sid = Some s
         \<and> Room_findById db (signIn_room s) = Some rm
         \<and> Room_findById db' (signIn_room s) = Some rm'
         \<and> 0 \<le> currentOccupancy rm'
         \<and> (0 < currentOccupancy rm' \<longrightarrow> occupancyStatus rm' = Occupied)
         \<and> (currentOccupancy rm' = 0 \<longrightarrow>
              occupancyStatus rm' =
                (if occupancyStatus rm = Maintenance then Maintenance else Available))"
    using s(1) rm rm' Room_preSave_derived
        [of "rm\<lparr>currentOccupancy := max 0 (currentOccupancy rm - 1)\<rparr>" rm now]
    by (intro exI [of _ s] exI [of _ rm]
          exI [of _ "Room_preSave now (rm\<lparr>currentOccupancy := max 0 (currentOccupancy rm - 1)\<rparr>)"])
       simp
qed

theorem occupancyStatus_after_room_save_witness:
  "(\<exists>rm'. Room_findById
            (snd (checkIn example_booked 1000 example_user (Some 1) (Some 1) (Some 1) [])) 1 =
              Some rm'
          \<and> currentOccupancy rm' = 1 \<and> occupancyStatus rm' = Occupied)
   \<and> (\<exists>rm'. Room_findById (snd (checkOut example_checked_in 91000 example_user 1 [])) 1 =
              Some rm'
          \<and> currentOccupancy rm' = 0 \<and> occupancyStatus rm' = Available)"
proof -
  have h1: "checkIn example_booked 1000 example_user (Some 1) (Some 1) (Some 1) [] =
              (Inr (1, 1000, 1),
               snd (checkIn example_booked 1000 example_user (Some 1) (Some 1) (Some 1) []))"
    by (simp add: prod_eq_iff example_defs handler_defs)
  have h2: "checkOut example_checked_in 91000 example_user 1 [] =
              (Inr (1, Some 91000, Some 2, 0),
               snd (checkOut example_checked_in 91000 example_user 1 []))"
    by (simp add: prod_eq_iff example_defs handler_defs)
  have s: "SignIn_findById example_checked_in 1 = Some example_signIn"
    by (simp add: example_defs handler_defs)
  have o1: "\<exists>rm'. Room_findById
            (snd (checkIn example_booked 1000 example_user (Some 1) (Some 1) (Some 1) [])) 1 =
              Some rm' \<and> currentOccupancy rm' = 1"
    by (simp add: example_defs handler_defs)
  have o2: "\<exists>rm'. Room_findById (snd (checkOut example_checked_in 91000 example_user 1 [])) 1 =
              Some rm' \<and> currentOccupancy rm' = 0"
    by (simp add: example_defs handler_defs)
  have r: "Room_findById example_booked 1 = Some example_room"
    "Room_findById example_checked_in 1 =
       Some (example_room\<lparr>currentOccupancy := 1, occupancyStatus := Occupied,
               lastUpdated := 1000\<rparr>)"
    "occupancyStatus example_room = Available" "signIn_room example_signIn = 1"
    by (simp_all add: example_defs handler_defs)
  from occupancyStatus_after_room_save
    [where db = example_booked and now = 1000 and caller = example_user
       and reservation = "Some 1" and roomId = 1 and buildingArg = "Some 1" and notesArg = "[]"
       and x = "(1, 1000, 1)"
       and db' = "snd (checkIn example_booked 1000 example_user (Some 1) (Some 1) (Some 1) [])"]
    h1 o1 r
  have a: "\<exists>rm'. Room_findById
            (snd (checkIn example_booked 1000 example_user (Some 1) (Some 1) (Some 1) [])) 1 =
              Some rm' \<and> currentOccupancy rm' = 1 \<and> occupancyStatus rm' = Occupied"
    by auto
  from occupancyStatus_after_room_save
    [where db = example_checked_in and now = 91000 and caller = example_user and sid = 1
       and notesArg = "[]" and y = "(1, Some 91000, Some 2, 0)"
       and db' = "snd (checkOut example_checked_in 91000 example_user 1 [])"]
    h2 o2 s r
  have b: "\<exists>rm'. Room_findById (snd (checkOut example_checked_in 91000 example_user 1 [])) 1 =
              Some rm' \<and> currentOccupancy rm' = 0 \<and> occupancyStatus rm' = Available"
    by auto
  from a b show ?thesis by blast
qed

lemma Math_round_div_bound:
  "60000 * Math_round_div a 60000 - 30000 \<le> a \<and> a < 60000 * Math_round_div a 60000 + 30000"
proof -
  have "120000 * ((2 * a + 60000) div 120000) + (2 * a + 60000) mod 120000 = 2 * a + 60000"
    by (rule mult_div_mod_eq)
  moreover have "0 \<le> (2 * a + 60000) mod 120000" "(2 * a + 60000) mod 120000 < 120000"
    by simp_all
  moreover have "Math_round_div a 60000 = (2 * a + 60000) div 120000"
    by (simp add: Math_round_div_def)
  ultimately show ?thesis
    by linarith
qed

text \<open>
  C5. A successful check-in into a room whose occupancy is not negative, followed by the
  check-out of the sign-in it created by the same user, with nothing in between: the
  check-out succeeds, the stored sign-in is completed with the two times and with the
  duration \<open>Math.round((signOutTime - signInTime) / 60000)\<close>, which is the whole
  number of minutes nearest to the time between the two (half a minute is rounded up:
  the time lies from 30 seconds below the duration to less than 30 seconds above it),
  the occupancy of the room is what it was before the check-in, and the reservation is
  completed and carries the two times of the sign-in.
\<close>

theorem checkIn_then_checkOut:
  assumes cin: "checkIn db t1 caller (Some rid) (Some roomId) buildingArg notes1 = (Inr (sid, t, occ), db1)"
    and rm: "Room_findById db roomId = Some rm"
    and nonneg: "0 \<le> currentOccupancy rm"
  shows "\<exists>d s r rm2 db2.
           checkOut db1 t2 caller sid notes2 = (Inr (sid, Some t2, Some d, currentOccupancy rm), db2)
           \<and> d = Math_round_div (t2 - t1) 60000
           \<and> 60000 * d - 30000 \<le> t2 - t1 \<and> t2 - t1 < 60000 * d + 30000
           \<and> SignIn_findById db2 sid = Some s
           \<and> signInTime s = t1 \<and> signOutTime s = Some t2 \<and> actualDuration s = Some d
           \<and> signIn_status s = SignInCompleted
           \<and> Room_findById db2 roomId = Some rm2 \<and> currentOccupancy rm2 = currentOccupancy rm
           \<and> Reservation_findById db2 rid = Some r
           \<and> status r = Completed \<and> checkInTime r = Some t1 \<and> checkOutTime r = Some t2"
proof -
  from checkIn_effect [OF cin] rm
  obtain r0 s0 where r0: "Reservation_findById db rid = Some r0"
    and s0: "SignIn_findById db1 sid = Some s0" "signIn_user s0 = userId caller"
      "signIn_status s0 = SignInActive"
    and s0': "signIn_reservation s0 = rid" "signIn_room s0 = roomId" "signInTime s0 = t1"
    and rm1: "Room_findById db1 roomId =
               Some (Room_preSave t1 (rm\<lparr>currentOccupancy := or_num (currentOccupancy rm) 0 + 1\<rparr>))"
    and res: "reservations db1 = reservations db"
    by auto
  define rm1 where "rm1 = Room_preSave t1 (rm\<lparr>currentOccupancy := or_num (currentOccupancy rm) 0 + 1\<rparr>)"
  have occ1: "currentOccupancy rm1 = currentOccupancy rm + 1"
    by (simp add: rm1_def Room_preSave_def or_num_def truthy_num_def)
  have rm1': "Room_findById db1 (signIn_room s0) = Some rm1"
    using rm1 by (simp add: rm1_def s0')
  have r1: "Reservation_findById db1 rid = Some r0"
    using r0 by (simp add: Reservation_findById_def res)
  from checkOut_effect [OF s0 rm1', of t2 notes2]
  obtain db2 where
    out: "checkOut db1 t2 caller sid notes2 =
             (Inr (sid, Some t2, Some (Math_round_div (t2 - signInTime s0) 60000),
                   max 0 (currentOccupancy rm1 - 1)), db2)"
    and f: "SignIn_findById db2 sid =
             Some (s0\<lparr>signOutTime := Some t2, signIn_status := SignInCompleted,
                   signIn_notes := (if truthy_str notes2 then trim notes2 else signIn_notes s0),
                   actualDuration := Some (Math_round_div (t2 - signInTime s0) 60000)\<rparr>)"
    and g: "Room_findById db2 (signIn_room s0) =
             Some (Room_preSave t2 (rm1\<lparr>currentOccupancy := max 0 (currentOccupancy rm1 - 1)\<rparr>))"
    and h: "Reservation_findById db2 (signIn_reservation s0) =
             map_option (\<lambda>r. r\<lparr>status := Completed, checkInTime := Some (signInTime s0),
                                 checkOutTime := Some t2\<rparr>)
               (Reservation_findById db1 (signIn_reservation s0))"
    by blast
  have restored: "max 0 (currentOccupancy rm1 - 1) = currentOccupancy rm"
    using nonneg by (simp add: occ1)
  show ?thesis
    using out f g h r1 restored Math_round_div_bound [of "t2 - t1"]
    by (simp add: s0' Room_preSave_def)
qed

theorem checkIn_then_checkOut_witness:
  "\<exists>db1 db2 r. checkIn example_booked 1000 example_user (Some 1) (Some 1) (Some 1) [] =
                  (Inr (1, 1000, 1), db1)
     \<and> checkOut db1 91000 example_user 1 [] = (Inr (1, Some 91000, Some 2, 0), db2)
     \<and> Reservation_findById db2 1 = Some r \<and> status r = Completed
     \<and> checkInTime r = Some 1000 \<and> checkOutTime r = Some 91000"
proof -
  have h1: "checkIn example_booked 1000 example_user (Some 1) (Some 1) (Some 1) [] =
              (Inr (1, 1000, 1),
               snd (checkIn example_booked 1000 example_user (Some 1) (Some 1) (Some 1) []))"
    by (simp add: prod_eq_iff example_defs handler_defs)
  have h2: "Room_findById example_booked 1 = Some example_room"
    by (simp add: example_defs handler_defs)
  have h3: "0 \<le> currentOccupancy example_room"
    by (simp add: example_defs)
  have d: "Math_round_div (91000 - 1000) 60000 = 2" "currentOccupancy example_room = 0"
    by (simp_all add: Math_round_div_def example_defs)
  from checkIn_then_checkOut [OF h1 h2 h3, of 91000 "[]"] h1 show ?thesis
    unfolding d by blast
qed

section \<open>Creating and updating\<close>

lemmas reservation_defs = createReservation_def updateReservation_def cancelReservation_def
  update_times_def update_people_def update_notes_status_def checkBookingConflict_def
  conflict_query_def Building_findById_def example_durations purpose_enum_def is_space_def

text \<open>
  The times are stored as they are given: an end time with a space after it is read as
  the number it denotes, and the reservation is stored with that string.
\<close>

lemma createReservation_trailing_space:
  "fst (createReservation example_db example_user (example_body\<lparr>body_endTime := ''16:00 ''\<rparr>)) =
     Inr (example_reservation\<lparr>endTime := ''16:00 ''\<rparr>)"
  by (simp add: example_defs handler_defs reservation_defs truthy_str_def truthy_num_def
        fresh_id_def trim_def Let_def)

text \<open>
  C7 (as amended). A request to create a reservation that carries every required field,
  whose room and building exist, whose number of people is within the capacity and whose
  duration, the number the handler computes from the two times, is 0 or less is refused
  and nothing is stored. The conflict checker runs before the duration is computed: the
  answer is the conflict when the checker finds an overlap for the times as given, and
  the validation error "End time must be after start time" otherwise. The times are any
  strings: an end time with a space after it or with a sign is read as \<^verbatim>\<open>Number\<close>
  reads it.
\<close>

theorem createReservation_nonpositive_duration:
  assumes "body_room body = Some roomId"
    and "body_building body = Some buildingId"
    and "body_reservationDate body = Some d"
    and "truthy_str (body_startTime body)"
    and "truthy_str (body_endTime body)"
    and "truthy_str (body_purpose body)"
    and "truthy_num (body_numberOfPeople body)"
    and "Room_findById db roomId = Some roomData"
    and "Building_findById db buildingId = Some buildingData"
    and "body_numberOfPeople body \<le> capacity roomData"
    and "le_zero (compute_duration (body_startTime body) (body_endTime body))"
  shows "createReservation db caller body =
           (Inl (if checkBookingConflict db roomId d (body_startTime body) (body_endTime body) None
                 then Conflict (Message ''Time slot is already booked'')
                 else ValidationError (Message ''End time must be after start time'')), db)"
  using assms by (simp add: createReservation_def)

theorem createReservation_nonpositive_duration_witness:
  "createReservation example_db example_user
      (example_body\<lparr>body_startTime := ''16:00'', body_endTime := ''14:00''\<rparr>) =
     (Inl (ValidationError (Message ''End time must be after start time'')), example_db)
   \<and> createReservation example_booked example_user
      (example_body\<lparr>body_startTime := ''15:00'', body_endTime := ''15:00''\<rparr>) =
     (Inl (Conflict (Message ''Time slot is already booked'')), example_booked)
   \<and> createReservation example_db example_user
      (example_body\<lparr>body_startTime := ''16:00'', body_endTime := ''14:00 ''\<rparr>) =
     (Inl (ValidationError (Message ''End time must be after start time'')), example_db)
   \<and> createReservation example_db example_user
      (example_body\<lparr>body_startTime := ''16:00'', body_endTime := ''-1:00''\<rparr>) =
     (Inl (ValidationError (Message ''End time must be after start time'')), example_db)"
proof -
  have h: "body_room (example_body\<lparr>body_startTime := s, body_endTime := e\<rparr>) = Some 1"
    "body_building (example_body\<lparr>body_startTime := s, body_endTime := e\<rparr>) = Some 1"
    "body_reservationDate (example_body\<lparr>body_startTime := s, body_endTime := e\<rparr>) = Some 0"
    for s e
    by (simp_all add: example_defs)
  have t: "truthy_str ''16:00''" "truthy_str ''14:00''" "truthy_str ''15:00''"
    "truthy_str ''14:00 ''" "truthy_str ''-1:00''"
    by (simp_all add: truthy_str_def)
  have p: "truthy_str (body_purpose (example_body\<lparr>body_startTime := s, body_endTime := e\<rparr>))"
    "truthy_num (body_numberOfPeople (example_body\<lparr>body_startTime := s, body_endTime := e\<rparr>))"
    "body_numberOfPeople (example_body\<lparr>body_startTime := s, body_endTime := e\<rparr>)
       \<le> capacity example_room"
    for s e
    by (simp_all add: example_defs truthy_str_def truthy_num_def)
  have f: "Room_findById example_db 1 = Some example_room"
    "Building_findById example_db 1 = Some 1"
    "Room_findById example_booked 1 = Some example_room"
    "Building_findById example_booked 1 = Some 1"
    by (simp_all add: example_defs handler_defs reservation_defs)
  have l: "le_zero (compute_duration ''16:00'' ''14:00'')"
    "le_zero (compute_duration ''15:00'' ''15:00'')"
    "le_zero (compute_duration ''16:00'' ''14:00 '')"
    "le_zero (compute_duration ''16:00'' ''-1:00'')"
    by (simp_all add: example_durations)
  have c: "\<not> checkBookingConflict example_db 1 0 ''16:00'' ''14:00'' None"
    "checkBookingConflict example_booked 1 0 ''15:00'' ''15:00'' None"
    "\<not> checkBookingConflict example_db 1 0 ''16:00'' ''14:00 '' None"
    "\<not> checkBookingConflict example_db 1 0 ''16:00'' ''-1:00'' None"
    by (simp_all add: example_defs reservation_defs)
  have a1: "createReservation example_db example_user
      (example_body\<lparr>body_startTime := ''16:00'', body_endTime := ''14:00''\<rparr>) =
     (Inl (ValidationError (Message ''End time must be after start time'')), example_db)"
    using createReservation_nonpositive_duration
      [where body = "example_body\<lparr>body_startTime := ''16:00'', body_endTime := ''14:00''\<rparr>"
         and db = example_db and caller = example_user and roomId = 1 and buildingId = 1
         and d = 0 and roomData = example_room and buildingData = 1]
      h p f t l c
    by simp
  have a2: "createReservation example_booked example_user
      (example_body\<lparr>body_startTime := ''15:00'', body_endTime := ''15:00''\<rparr>) =
     (Inl (Conflict (Message ''Time slot is already booked'')), example_booked)"
    using createReservation_nonpositive_duration
      [where body = "example_body\<lparr>body_startTime := ''15:00'', body_endTime := ''15:00''\<rparr>"
         and db = example_booked and caller = example_user and roomId = 1 and buildingId = 1
         and d = 0 and roomData = example_room and buildingData = 1]
      h p f t l c
    by simp
  have a3: "createReservation example_db example_user
      (example_body\<lparr>body_startTime := ''16:00'', body_endTime := ''14:00 ''\<rparr>) =
     (Inl (ValidationError (Message ''End time must be after start time'')), example_db)"
    using createReservation_nonpositive_duration
      [where body = "example_body\<lparr>body_startTime := ''16:00'', body_endTime := ''14:00 ''\<rparr>"
         and db = example_db and caller = example_user and roomId = 1 and buildingId = 1
         and d = 0 and roomData = example_room and buildingData = 1]
      h p f t l c
    by simp
  have a4: "createReservation example_db example_user
      (example_body\<lparr>body_startTime := ''16:00'', body_endTime := ''-1:00''\<rparr>) =
     (Inl (ValidationError (Message ''End time must be after start time'')), example_db)"
    using createReservation_nonpositive_duration
      [where body = "example_body\<lparr>body_startTime := ''16:00'', body_endTime := ''-1:00''\<rparr>"
         and db = example_db and caller = example_user and roomId = 1 and buildingId = 1
         and d = 0 and roomData = example_room and buildingData = 1]
      h p f t l c
    by simp
  from a1 a2 a3 a4 show ?thesis by blast
qed

text \<open>
  The refusal is not always the validation error: with the room booked from 14:00 to
  16:00, the request from 15:30 to 14:30 (minus 60 minutes) is answered with the conflict.
\<close>

theorem createReservation_nonpositive_duration_counterexample:
  "Room_findById example_booked 1 = Some example_room
   \<and> Building_findById example_booked 1 = Some 1
   \<and> body_numberOfPeople example_body \<le> capacity example_room
   \<and> compute_duration ''15:30'' ''14:30'' = Finite (- 60)
   \<and> createReservation example_booked example_user
         (example_body\<lparr>body_startTime := ''15:30'', body_endTime := ''14:30''\<rparr>) =
       (Inl (Conflict (Message ''Time slot is already booked'')), example_booked)"
  by (simp add: example_defs handler_defs reservation_defs example_durations)

lemma update_ids:
  "update_times db r patch = Inr r1 \<Longrightarrow> reservation_id r1 = reservation_id r"
  "update_people db r1 patch = Inr r2 \<Longrightarrow> reservation_id r2 = reservation_id r1"
  "reservation_id (update_notes_status r2 patch) = reservation_id r2"
  by (auto simp: update_times_def update_people_def update_notes_status_def Let_def
           split: if_splits option.splits)

text \<open>
  C3 (as amended). For an update by the owner or an administrator: a reservation that is
  not pending, with a patch whose status is not confirmed, is answered with the
  validation error and the database is unchanged. A patch whose status is confirmed
  passes that gate whatever the status of the reservation: its truthy start time, end
  time, number of people and notes are stored with the status confirmed, provided that
  the conflict checker finds no overlap for the new times (otherwise the conflict is
  answered), that the number of people is within the capacity of the room (otherwise
  the validation error is answered), that the room of the reservation still exists when
  the number of people is given and that a number of people that changes is not below
  the schema's minimum of 1 (otherwise the internal error "Error updating reservation"
  is answered, the status 500); the refused updates leave the database unchanged.
\<close>

theorem updateReservation_pending_gate:
  assumes found: "Reservation_findById db rid = Some r"
    and auth: "user r = userId caller \<or> role caller = ''admin''"
  shows "(status r \<noteq> Pending \<and> patch_status patch \<noteq> ''confirmed'' \<longrightarrow>
            updateReservation db caller rid patch =
              (Inl (ValidationError (Message ''Can only modify pending reservations'')), db))
       \<and> (patch_status patch = ''confirmed''
            \<and> (truthy_str (patch_startTime patch) \<or> truthy_str (patch_endTime patch))
            \<and> checkBookingConflict db (room r) (reservationDate r)
                 (or_str (patch_startTime patch) (startTime r))
                 (or_str (patch_endTime patch) (endTime r)) (Some rid) \<longrightarrow>
            updateReservation db caller rid patch =
              (Inl (Conflict (Message ''New time slot is already booked'')), db))
       \<and> (patch_status patch = ''confirmed''
            \<and> \<not> ((truthy_str (patch_startTime patch) \<or> truthy_str (patch_endTime patch))
                 \<and> checkBookingConflict db (room r) (reservationDate r)
                      (or_str (patch_startTime patch) (startTime r))
                      (or_str (patch_endTime patch) (endTime r)) (Some rid))
            \<and> truthy_num (patch_numberOfPeople patch)
            \<and> Room_findById db (room r) = Some roomData
            \<and> capacity roomData < patch_numberOfPeople patch \<longrightarrow>
            updateReservation db caller rid patch =
              (Inl (ValidationError (RoomCapacityIs (capacity roomData))), db))
       \<and> (patch_status patch = ''confirmed''
            \<and> \<not> ((truthy_str (patch_startTime patch) \<or> truthy_str (patch_endTime patch))
                 \<and> checkBookingConflict db (room r) (reservationDate r)
                      (or_str (patch_startTime patch) (startTime r))
                      (or_str (patch_endTime patch) (endTime r)) (Some rid))
            \<and> truthy_num (patch_numberOfPeople patch)
            \<and> Room_findById db (room r) = None \<longrightarrow>
            updateReservation db caller rid patch =
              (Inl (InternalError (Message ''Error updating reservation'')), db))
       \<and> (patch_status patch = ''confirmed''
            \<and> \<not> ((truthy_str (patch_startTime patch) \<or> truthy_str (patch_endTime patch))
                 \<and> checkBookingConflict db (room r) (reservationDate r)
                      (or_str (patch_startTime patch) (startTime r))
                      (or_str (patch_endTime patch) (endTime r)) (Some rid))
            \<and> truthy_num (patch_numberOfPeople patch)
            \<and> Room_findById db (room r) = Some roomData
            \<and> patch_numberOfPeople patch \<le> capacity roomData
            \<and> patch_numberOfPeople patch \<noteq> numberOfPeople r
            \<and> patch_numberOfPeople patch < 1 \<longrightarrow>
            updateReservation db caller rid patch =
              (Inl (InternalError (Message ''Error updating reservation'')), db))
       \<and> (patch_status patch = ''confirmed''
            \<and> \<not> ((truthy_str (patch_startTime patch) \<or> truthy_str (patch_endTime patch))
                 \<and> checkBookingConflict db (room r) (reservationDate r)
                      (or_str (patch_startTime patch) (startTime r))
                      (or_str (patch_endTime patch) (endTime r)) (Some rid))
            \<and> (truthy_num (patch_numberOfPeople patch) \<longrightarrow>
                 (\<exists>roomData. Room_findById db (room r) = Some roomData
                    \<and> patch_numberOfPeople patch \<le> capacity roomData)
                 \<and> (patch_numberOfPeople patch = numberOfPeople r \<or> 1 \<le> patch_numberOfPeople patch))
            \<longrightarrow>
            (\<exists>r' db'. updateReservation db caller rid patch = (Inr r', db')
               \<and> Reservation_findById db' rid = Some r'
               \<and> r' = r\<lparr>startTime := or_str (patch_startTime patch) (startTime r),
                         endTime := or_str (patch_endTime patch) (endTime r),
                         numberOfPeople := or_num (patch_numberOfPeople patch) (numberOfPeople r),
                         notes := (if truthy_str (patch_notes patch) then trim (patch_notes patch)
                                   else notes r),
                         status := Confirmed\<rparr>))"
proof (intro conjI impI)
  assume "status r \<noteq> Pending \<and> patch_status patch \<noteq> ''confirmed''"
  then show "updateReservation db caller rid patch =
              (Inl (ValidationError (Message ''Can only modify pending reservations'')), db)"
    using found auth by (auto simp: updateReservation_def)
next
  assume "patch_status patch = ''confirmed''
            \<and> (truthy_str (patch_startTime patch) \<or> truthy_str (patch_endTime patch))
            \<and> checkBookingConflict db (room r) (reservationDate r)
                 (or_str (patch_startTime patch) (startTime r))
                 (or_str (patch_endTime patch) (endTime r)) (Some rid)"
  then show "updateReservation db caller rid patch =
              (Inl (Conflict (Message ''New time slot is already booked'')), db)"
    using found auth Reservation_findById_id [OF found]
    by (auto simp: updateReservation_def update_times_def Let_def)
next
  assume c: "patch_status patch = ''confirmed''
            \<and> \<not> ((truthy_str (patch_startTime patch) \<or> truthy_str (patch_endTime patch))
                 \<and> checkBookingConflict db (room r) (reservationDate r)
                      (or_str (patch_startTime patch) (startTime r))
                      (or_str (patch_endTime patch) (endTime r)) (Some rid))
            \<and> truthy_num (patch_numberOfPeople patch)
            \<and> Room_findById db (room r) = Some roomData
            \<and> capacity roomData < patch_numberOfPeople patch"
  have rid: "reservation_id r = rid" using found by (rule Reservation_findById_id)
  define r1 where "r1 = (if truthy_str (patch_startTime patch) \<or> truthy_str (patch_endTime patch)
      then r\<lparr>startTime := or_str (patch_startTime patch) (startTime r),
              endTime := or_str (patch_endTime patch) (endTime r)\<rparr> else r)"
  have t: "update_times db r patch = Inr r1"
    using c rid by (auto simp: update_times_def r1_def Let_def)
  have rr: "room r1 = room r" by (simp add: r1_def)
  have "update_people db r1 patch = Inl (ValidationError (RoomCapacityIs (capacity roomData)))"
    using c rr by (simp add: update_people_def)
  then show "updateReservation db caller rid patch =
              (Inl (ValidationError (RoomCapacityIs (capacity roomData))), db)"
    using found auth c t by (auto simp: updateReservation_def)
next
  assume c: "patch_status patch = ''confirmed''
            \<and> \<not> ((truthy_str (patch_startTime patch) \<or> truthy_str (patch_endTime patch))
                 \<and> checkBookingConflict db (room r) (reservationDate r)
                      (or_str (patch_startTime patch) (startTime r))
                      (or_str (patch_endTime patch) (endTime r)) (Some rid))
            \<and> truthy_num (patch_numberOfPeople patch)
            \<and> Room_findById db (room r) = None"
  have rid: "reservation_id r = rid" using found by (rule Reservation_findById_id)
  define r1 where "r1 = (if truthy_str (patch_startTime patch) \<or> truthy_str (patch_endTime patch)
      then r\<lparr>startTime := or_str (patch_startTime patch) (startTime r),
              endTime := or_str (patch_endTime patch) (endTime r)\<rparr> else r)"
  have t: "update_times db r patch = Inr r1"
    using c rid by (auto simp: update_times_def r1_def Let_def)
  have rr: "room r1 = room r" "numberOfPeople r1 = numberOfPeople r" by (simp_all add: r1_def)
  have "update_people db r1 patch = Inl (InternalError (Message ''Error updating reservation''))"
    using c rr by (simp add: update_people_def)
  then show "updateReservation db caller rid patch =
              (Inl (InternalError (Message ''Error updating reservation'')), db)"
    using found auth c t by (auto simp: updateReservation_def)
next
  assume c: "patch_status patch = ''confirmed''
            \<and> \<not> ((truthy_str (patch_startTime patch) \<or> truthy_str (patch_endTime patch))
                 \<and> checkBookingConflict db (room r) (reservationDate r)
                      (or_str (patch_startTime patch) (startTime r))
                      (or_str (patch_endTime patch) (endTime r)) (Some rid))
            \<and> truthy_num (patch_numberOfPeople patch)
            \<and> Room_findById db (room r) = Some roomData
            \<and> patch_numberOfPeople patch \<le> capacity roomData
            \<and> patch_numberOfPeople patch \<noteq> numberOfPeople r
            \<and> patch_numberOfPeople patch < 1"
  have rid: "reservation_id r = rid" using found by (rule Reservation_findById_id)
  define r1 where "r1 = (if truthy_str (patch_startTime patch) \<or> truthy_str (patch_endTime patch)
      then r\<lparr>startTime := or_str (patch_startTime patch) (startTime r),
              endTime := or_str (patch_endTime patch) (endTime r)\<rparr> else r)"
  have t: "update_times db r patch = Inr r1"
    using c rid by (auto simp: update_times_def r1_def Let_def)
  have rr: "room r1 = room r" "numberOfPeople r1 = numberOfPeople r" by (simp_all add: r1_def)
  have p: "update_people db r1 patch = Inr (r1\<lparr>numberOfPeople := patch_numberOfPeople patch\<rparr>)"
    using c rr by (simp add: update_people_def)
  have n: "numberOfPeople (update_notes_status (r1\<lparr>numberOfPeople := patch_numberOfPeople patch\<rparr>) patch)
             = patch_numberOfPeople patch"
    by (simp add: update_notes_status_def Let_def)
  show "updateReservation db caller rid patch =
              (Inl (InternalError (Message ''Error updating reservation'')), db)"
    using found auth c t p n by (auto simp: updateReservation_def Let_def)
next
  assume a: "patch_status patch = ''confirmed''
            \<and> \<not> ((truthy_str (patch_startTime patch) \<or> truthy_str (patch_endTime patch))
                 \<and> checkBookingConflict db (room r) (reservationDate r)
                      (or_str (patch_startTime patch) (startTime r))
                      (or_str (patch_endTime patch) (endTime r)) (Some rid))
            \<and> (truthy_num (patch_numberOfPeople patch) \<longrightarrow>
                 (\<exists>roomData. Room_findById db (room r) = Some roomData
                    \<and> patch_numberOfPeople patch \<le> capacity roomData)
                 \<and> (patch_numberOfPeople patch = numberOfPeople r \<or> 1 \<le> patch_numberOfPeople patch))"
  define r1 where "r1 = (if truthy_str (patch_startTime patch) \<or> truthy_str (patch_endTime patch)
      then r\<lparr>startTime := or_str (patch_startTime patch) (startTime r),
              endTime := or_str (patch_endTime patch) (endTime r)\<rparr> else r)"
  define r2 where "r2 = r1\<lparr>numberOfPeople := or_num (patch_numberOfPeople patch) (numberOfPeople r)\<rparr>"
  define r3 where "r3 = update_notes_status r2 patch"
  have rid: "reservation_id r = rid" using found by (rule Reservation_findById_id)
  have t: "update_times db r patch = Inr r1"
    using a rid by (auto simp: update_times_def r1_def Let_def)
  have p: "update_people db r1 patch = Inr r2"
    using a by (auto simp: update_people_def r2_def r1_def or_num_def)
  have n: "numberOfPeople r3 = or_num (patch_numberOfPeople patch) (numberOfPeople r)"
    by (simp add: r3_def r2_def update_notes_status_def Let_def)
  have v: "\<not> (numberOfPeople r3 \<noteq> numberOfPeople r \<and> numberOfPeople r3 < 1)"
    using a by (auto simp: n or_num_def)
  have u: "updateReservation db caller rid patch = (Inr r3, Reservation_save r3 db)"
    using found auth a t p v by (auto simp: updateReservation_def r3_def Let_def)
  have i: "reservation_id r3 = rid"
    using rid by (simp add: r3_def r2_def r1_def update_ids(3))
  have f: "Reservation_findById (Reservation_save r3 db) rid = Some r3"
    by (rule Reservation_findById_save [OF found i])
  have e: "r3 = r\<lparr>startTime := or_str (patch_startTime patch) (startTime r),
                         endTime := or_str (patch_endTime patch) (endTime r),
                         numberOfPeople := or_num (patch_numberOfPeople patch) (numberOfPeople r),
                         notes := (if truthy_str (patch_notes patch) then trim (patch_notes patch)
                                   else notes r),
                         status := Confirmed\<rparr>"
    using a by (simp add: r3_def r2_def r1_def update_notes_status_def Let_def or_str_def)
  show "\<exists>r' db'. updateReservation db caller rid patch = (Inr r', db')
               \<and> Reservation_findById db' rid = Some r'
               \<and> r' = r\<lparr>startTime := or_str (patch_startTime patch) (startTime r),
                         endTime := or_str (patch_endTime patch) (endTime r),
                         numberOfPeople := or_num (patch_numberOfPeople patch) (numberOfPeople r),
                         notes := (if truthy_str (patch_notes patch) then trim (patch_notes patch)
                                   else notes r),
                         status := Confirmed\<rparr>"
    using u f e by blast
qed

theorem updateReservation_pending_gate_witness:
  "updateReservation example_two example_user 1 (example_patch\<lparr>patch_notes := ''late''\<rparr>) =
     (Inl (ValidationError (Message ''Can only modify pending reservations'')), example_two)
   \<and> updateReservation example_two example_user 1
         (example_patch\<lparr>patch_endTime := ''17:00'', patch_status := ''confirmed''\<rparr>) =
       (Inl (Conflict (Message ''New time slot is already booked'')), example_two)
   \<and> updateReservation example_two example_user 1
         (example_patch\<lparr>patch_numberOfPeople := 5, patch_status := ''confirmed''\<rparr>) =
       (Inl (ValidationError (RoomCapacityIs 4)), example_two)
   \<and> updateReservation (example_two\<lparr>rooms := []\<rparr>) example_user 1
         (example_patch\<lparr>patch_numberOfPeople := 3, patch_status := ''confirmed''\<rparr>) =
       (Inl (InternalError (Message ''Error updating reservation'')), example_two\<lparr>rooms := []\<rparr>)
   \<and> updateReservation example_two example_user 1
         (example_patch\<lparr>patch_numberOfPeople := - 1, patch_status := ''confirmed''\<rparr>) =
       (Inl (InternalError (Message ''Error updating reservation'')), example_two)
   \<and> fst (updateReservation example_two example_user 1
         (example_patch\<lparr>patch_startTime := ''13:00'', patch_numberOfPeople := 3,
            patch_notes := ''late'', patch_status := ''confirmed''\<rparr>)) =
       Inr (example_reservation\<lparr>startTime := ''13:00'', numberOfPeople := 3, notes := ''late'',
              status := Confirmed\<rparr>)"
proof -
  have h1: "Reservation_findById example_two 1 = Some (example_reservation\<lparr>status := Completed\<rparr>)"
    by (simp add: example_defs handler_defs)
  have h2: "user (example_reservation\<lparr>status := Completed\<rparr>) = userId example_user
            \<or> role example_user = ''admin''"
    by (simp add: example_defs)
  have c: "checkBookingConflict example_two 1 0 ''14:00'' ''17:00'' (Some 1)"
    "\<not> checkBookingConflict example_two 1 0 ''13:00'' ''16:00'' (Some 1)"
    by (simp_all add: example_defs reservation_defs)
  have rm: "Room_findById example_two 1 = Some example_room"
    by (simp add: example_defs handler_defs)
  have cap: "capacity example_room = 4" by (simp add: example_defs)
  have t: "trim ''late'' = ''late''" by (simp add: trim_def is_space_def)
  note w = updateReservation_pending_gate [OF h1 h2, where roomData = example_room]
  have a: "updateReservation example_two example_user 1 (example_patch\<lparr>patch_notes := ''late''\<rparr>) =
     (Inl (ValidationError (Message ''Can only modify pending reservations'')), example_two)"
    using w [of "example_patch\<lparr>patch_notes := ''late''\<rparr>"]
    by (simp add: example_defs)
  have b: "updateReservation example_two example_user 1
         (example_patch\<lparr>patch_endTime := ''17:00'', patch_status := ''confirmed''\<rparr>) =
       (Inl (Conflict (Message ''New time slot is already booked'')), example_two)"
    using w [of "example_patch\<lparr>patch_endTime := ''17:00'', patch_status := ''confirmed''\<rparr>"] c
    by (simp add: example_patch_def example_reservation_def or_str_def truthy_str_def)
  have d: "updateReservation example_two example_user 1
         (example_patch\<lparr>patch_numberOfPeople := 5, patch_status := ''confirmed''\<rparr>) =
       (Inl (ValidationError (RoomCapacityIs 4)), example_two)"
    using w [of "example_patch\<lparr>patch_numberOfPeople := 5, patch_status := ''confirmed''\<rparr>"] rm cap
    by (simp add: example_patch_def example_reservation_def or_str_def truthy_str_def
          truthy_num_def)
  have e: "fst (updateReservation example_two example_user 1
         (example_patch\<lparr>patch_startTime := ''13:00'', patch_numberOfPeople := 3,
            patch_notes := ''late'', patch_status := ''confirmed''\<rparr>)) =
       Inr (example_reservation\<lparr>startTime := ''13:00'', numberOfPeople := 3, notes := ''late'',
              status := Confirmed\<rparr>)"
    using w [of "example_patch\<lparr>patch_startTime := ''13:00'', patch_numberOfPeople := 3,
            patch_notes := ''late'', patch_status := ''confirmed''\<rparr>"] c rm cap t
    by (auto simp: example_patch_def example_reservation_def or_str_def truthy_str_def
          truthy_num_def or_num_def)
  have h3: "Reservation_findById (example_two\<lparr>rooms := []\<rparr>) 1 =
              Some (example_reservation\<lparr>status := Completed\<rparr>)"
    by (simp add: example_defs handler_defs)
  have norm: "Room_findById (example_two\<lparr>rooms := []\<rparr>) 1 = None"
    by (simp add: example_defs handler_defs)
  have f: "updateReservation (example_two\<lparr>rooms := []\<rparr>) example_user 1
         (example_patch\<lparr>patch_numberOfPeople := 3, patch_status := ''confirmed''\<rparr>) =
       (Inl (InternalError (Message ''Error updating reservation'')), example_two\<lparr>rooms := []\<rparr>)"
    using updateReservation_pending_gate [OF h3 h2, where roomData = example_room
        and patch = "example_patch\<lparr>patch_numberOfPeople := 3, patch_status := ''confirmed''\<rparr>"]
      norm
    by (simp add: example_patch_def example_reservation_def or_str_def truthy_str_def
          truthy_num_def)
  have g: "updateReservation example_two example_user 1
         (example_patch\<lparr>patch_numberOfPeople := - 1, patch_status := ''confirmed''\<rparr>) =
       (Inl (InternalError (Message ''Error updating reservation'')), example_two)"
    using w [of "example_patch\<lparr>patch_numberOfPeople := - 1, patch_status := ''confirmed''\<rparr>"] rm cap
    by (simp add: example_patch_def example_reservation_def or_str_def truthy_str_def
          truthy_num_def)
  from a b d e f g show ?thesis by blast
qed

text \<open>
  A patch with the status confirmed is not always applied: the completed reservation
  from 14:00 to 16:00 cannot be extended to 17:00 over the booking from 16:00 to 17:00.
\<close>

theorem updateReservation_confirm_counterexample:
  "Reservation_findById example_two 1 = Some (example_reservation\<lparr>status := Completed\<rparr>)
   \<and> user (example_reservation\<lparr>status := Completed\<rparr>) = userId example_user
   \<and> updateReservation example_two example_user 1
         (example_patch\<lparr>patch_endTime := ''17:00'', patch_status := ''confirmed''\<rparr>) =
       (Inl (Conflict (Message ''New time slot is already booked'')), example_two)"
  by (simp add: example_defs handler_defs reservation_defs)

section \<open>The status of a reservation\<close>

text \<open>The states of the examples are reached by requests.\<close>

lemma example_states_reached:
  "handle 0 (CreateReservation example_user example_body) example_db = example_booked"
  "handle 1000 (CheckIn example_user (Some 1) (Some 1) (Some 1) []) example_booked =
     example_checked_in"
  by (simp_all add: example_defs handler_defs reservation_defs)

lemma find_append_Some: "find P xs = Some x \<Longrightarrow> find P (xs @ ys) = Some x"
  by (induction xs) (auto split: if_splits)

lemma Reservation_findById_save_any:
  assumes "Reservation_findById db rid = Some r" and "reservation_id r' = rid0"
  shows "Reservation_findById (Reservation_save r' db) rid = Some (if rid = rid0 then r' else r)"
proof (cases "rid = rid0")
  case True
  then show ?thesis using assms by (simp add: Reservation_findById_save)
next
  case False
  then show ?thesis
    using assms find_replace_other [of reservation_id r' rid0 rid "reservations db"]
    by (simp add: Reservation_findById_def Reservation_save_def)
qed

lemma createReservation_db:
  "snd (createReservation db caller body) = db
   \<or> (\<exists>new. snd (createReservation db caller body) =
               db\<lparr>reservations := reservations db @ [new]\<rparr> \<and> status new = Pending)"
  by (auto simp: createReservation_def Let_def split: option.splits)

lemma updateReservation_db:
  "snd (updateReservation db caller rid0 patch) = db
   \<or> (\<exists>r0 r3. Reservation_findById db rid0 = Some r0
         \<and> snd (updateReservation db caller rid0 patch) = Reservation_save r3 db
         \<and> reservation_id r3 = rid0
         \<and> (status r3 = status r0
             \<or> (patch_status patch = ''confirmed'' \<and> status r3 = Confirmed)
             \<or> (status r0 = Pending \<and> status r3 = Cancelled)))"
proof (cases "Reservation_findById db rid0")
  case None
  then show ?thesis by (simp add: updateReservation_def)
next
  case (Some r0)
  have rid: "reservation_id r0 = rid0" using Some by (rule Reservation_findById_id)
  show ?thesis
  proof (cases "snd (updateReservation db caller rid0 patch) = db")
    case True
    then show ?thesis by simp
  next
    case False
    then obtain r1 r2 where g: "status r0 = Pending \<or> patch_status patch = ''confirmed''"
      and t: "update_times db r0 patch = Inr r1"
      and p: "update_people db r1 patch = Inr r2"
      and s: "snd (updateReservation db caller rid0 patch) =
                Reservation_save (update_notes_status r2 patch) db"
      using Some
      by (auto simp: updateReservation_def Let_def split: if_splits sum.splits)
    have st: "status r2 = status r0"
      using t p by (auto simp: update_times_def update_people_def Let_def
                         split: if_splits option.splits)
    have i: "reservation_id (update_notes_status r2 patch) = rid0"
      using update_ids(1) [OF t] update_ids(2) [OF p] rid by (simp add: update_ids(3))
    have "status (update_notes_status r2 patch) = status r0
             \<or> (patch_status patch = ''confirmed'' \<and> status (update_notes_status r2 patch) = Confirmed)
             \<or> (status r0 = Pending \<and> status (update_notes_status r2 patch) = Cancelled)"
      using g st by (auto simp: update_notes_status_def Let_def)
    then show ?thesis using Some s i by blast
  qed
qed

lemma cancelReservation_db:
  "snd (cancelReservation db now caller rid0 reason) = db
   \<or> (\<exists>r0 r'. Reservation_findById db rid0 = Some r0
         \<and> snd (cancelReservation db now caller rid0 reason) = Reservation_save r' db
         \<and> reservation_id r' = rid0
         \<and> (status r0 = Pending \<or> status r0 = Confirmed) \<and> status r' = Cancelled)"
proof (cases "Reservation_findById db rid0")
  case None
  then show ?thesis by (simp add: cancelReservation_def)
next
  case (Some r0)
  have rid: "reservation_id r0 = rid0" using Some by (rule Reservation_findById_id)
  show ?thesis using Some rid by (auto simp: cancelReservation_def Let_def)
qed

lemma checkIn_reservations:
  "reservations (snd (checkIn db now caller reservation roomArg buildingArg notesArg)) =
     reservations db"
  by (auto simp: checkIn_def SignIn_insert_def Room_save_def Let_def
           split: option.splits if_splits)

lemma checkOut_reservations:
  "reservations (snd (checkOut db now caller sid notesArg)) = reservations db
   \<or> (\<exists>r0 r'. Reservation_findById db (reservation_id r') = Some r0
         \<and> reservations (snd (checkOut db now caller sid notesArg)) =
             reservations (Reservation_save r' db)
         \<and> status r' = Completed)"
proof (cases "\<exists>y. fst (checkOut db now caller sid notesArg) = Inr y")
  case False
  then have "reservations (snd (checkOut db now caller sid notesArg)) = reservations db"
    by (auto simp: checkOut_def SignIn_save_def Room_save_def Let_def
             split: option.splits if_splits)
  then show ?thesis by simp
next
  case True
  then obtain y where y: "checkOut db now caller sid notesArg =
      (Inr y, snd (checkOut db now caller sid notesArg))"
    by (auto simp: prod_eq_iff)
  from checkOut_Inr [OF y]
  obtain s rm where s: "SignIn_findById db sid = Some s" "signIn_user s = userId caller"
      "signIn_status s = SignInActive" and rm: "Room_findById db (signIn_room s) = Some rm"
    by blast
  from checkOut_active [OF s rm, of now notesArg]
  obtain db2 where
    db2: "Room_save now (rm\<lparr>currentOccupancy := max 0 (currentOccupancy rm - 1)\<rparr>)
            (snd (SignIn_save (s\<lparr>signOutTime := Some now, signIn_status := SignInCompleted,
                   signIn_notes := (if truthy_str notesArg then trim notesArg else signIn_notes s),
                   actualDuration := Some (Math_round_div (now - signInTime s) 60000)\<rparr>) db)) = Some db2"
    and out: "snd (checkOut db now caller sid notesArg) =
              (case Reservation_findById db (signIn_reservation s) of
                 None \<Rightarrow> db2
               | Some r \<Rightarrow>
                   Reservation_save (r\<lparr>status := Completed, checkInTime := Some (signInTime s),
                                       checkOutTime := Some now\<rparr>) db2)"
    by auto
  have res: "reservations db2 = reservations db"
    using Room_save_others [OF db2] by (simp add: SignIn_save_def Let_def)
  show ?thesis
  proof (cases "Reservation_findById db (signIn_reservation s)")
    case None
    then show ?thesis using out res by simp
  next
    case (Some r)
    have i: "reservation_id r = signIn_reservation s" using Some by (rule Reservation_findById_id)
    let ?r' = "r\<lparr>status := Completed, checkInTime := Some (signInTime s),
                  checkOutTime := Some now\<rparr>"
    have "reservations (snd (checkOut db now caller sid notesArg)) =
            reservations (Reservation_save ?r' db)"
      using out Some res by (simp add: Reservation_save_def)
    moreover have "Reservation_findById db (reservation_id ?r') = Some r"
      using Some i by simp
    moreover have "status ?r' = Completed" by simp
    ultimately show ?thesis by blast
  qed
qed

lemma Reservation_findById_cong:
  "reservations a = reservations b \<Longrightarrow> Reservation_findById a i = Reservation_findById b i"
  by (simp add: Reservation_findById_def)

text \<open>
  C4 (as amended). Whatever request of the five is answered, a stored reservation stays
  stored, and its status changes as follows. From pending it becomes confirmed or
  cancelled, or completed by a check-out (a check-in accepts a pending reservation);
  from confirmed it becomes cancelled, or completed by a check-out. A reservation that
  is completed, cancelled or no-show keeps its status under every request that is
  neither a check-out nor an update whose patch has the status confirmed.
\<close>

theorem status_transitions:
  assumes found: "Reservation_findById db rid = Some r"
  shows "\<exists>r'. Reservation_findById (handle now req db) rid = Some r'
     \<and> (status r = Pending \<longrightarrow>
          status r' = Pending \<or> status r' = Confirmed \<or> status r' = Cancelled
          \<or> (is_checkOut req \<and> status r' = Completed))
     \<and> (status r = Confirmed \<longrightarrow>
          status r' = Confirmed \<or> status r' = Cancelled
          \<or> (is_checkOut req \<and> status r' = Completed))
     \<and> (status r \<noteq> Pending \<and> status r \<noteq> Confirmed
          \<and> \<not> is_checkOut req \<and> \<not> sets_confirmed req \<longrightarrow> status r' = status r)"
proof (cases req)
  case (CreateReservation caller body)
  have "Reservation_findById (snd (createReservation db caller body)) rid = Some r"
    using createReservation_db [of db caller body] found
    by (auto simp: Reservation_findById_def find_append_Some)
  then show ?thesis using CreateReservation by (cases "status r") simp_all
next
  case (UpdateReservation caller rid0 patch)
  from updateReservation_db [of db caller rid0 patch]
  show ?thesis
  proof
    assume "snd (updateReservation db caller rid0 patch) = db"
    then show ?thesis using UpdateReservation found by (cases "status r") simp_all
  next
    assume "\<exists>r0 r3. Reservation_findById db rid0 = Some r0
         \<and> snd (updateReservation db caller rid0 patch) = Reservation_save r3 db
         \<and> reservation_id r3 = rid0
         \<and> (status r3 = status r0
             \<or> (patch_status patch = ''confirmed'' \<and> status r3 = Confirmed)
             \<or> (status r0 = Pending \<and> status r3 = Cancelled))"
    then obtain r0 r3 where r0: "Reservation_findById db rid0 = Some r0"
      and sv: "snd (updateReservation db caller rid0 patch) = Reservation_save r3 db"
      and i: "reservation_id r3 = rid0"
      and st: "status r3 = status r0
             \<or> (patch_status patch = ''confirmed'' \<and> status r3 = Confirmed)
             \<or> (status r0 = Pending \<and> status r3 = Cancelled)"
      by blast
    have f: "Reservation_findById (handle now req db) rid = Some (if rid = rid0 then r3 else r)"
      using Reservation_findById_save_any [OF found i] sv UpdateReservation by simp
    show ?thesis
    proof (cases "rid = rid0")
      case True
      then have "r0 = r" using r0 found by simp
      then show ?thesis using f True st UpdateReservation by (cases "status r") auto
    next
      case False
      then show ?thesis using f by (cases "status r") simp_all
    qed
  qed
next
  case (CancelReservation caller rid0 reason)
  from cancelReservation_db [of db now caller rid0 reason]
  show ?thesis
  proof
    assume "snd (cancelReservation db now caller rid0 reason) = db"
    then show ?thesis using CancelReservation found by (cases "status r") simp_all
  next
    assume "\<exists>r0 r'. Reservation_findById db rid0 = Some r0
         \<and> snd (cancelReservation db now caller rid0 reason) = Reservation_save r' db
         \<and> reservation_id r' = rid0
         \<and> (status r0 = Pending \<or> status r0 = Confirmed) \<and> status r' = Cancelled"
    then obtain r0 r' where r0: "Reservation_findById db rid0 = Some r0"
      and sv: "snd (cancelReservation db now caller rid0 reason) = Reservation_save r' db"
      and i: "reservation_id r' = rid0"
      and st: "status r0 = Pending \<or> status r0 = Confirmed" "status r' = Cancelled"
      by blast
    have f: "Reservation_findById (handle now req db) rid = Some (if rid = rid0 then r' else r)"
      using Reservation_findById_save_any [OF found i] sv CancelReservation by simp
    show ?thesis
    proof (cases "rid = rid0")
      case True
      then have "r0 = r" using r0 found by simp
      then show ?thesis using f True st by auto
    next
      case False
      then show ?thesis using f by (cases "status r") simp_all
    qed
  qed
next
  case (CheckIn caller reservation roomArg buildingArg notesArg)
  have "Reservation_findById (handle now req db) rid = Some r"
    using found CheckIn
      Reservation_findById_cong [OF checkIn_reservations
        [of db now caller reservation roomArg buildingArg notesArg], of rid]
    by simp
  then show ?thesis using CheckIn by (cases "status r") simp_all
next
  case (CheckOut caller sid notesArg)
  from checkOut_reservations [of db now caller sid notesArg]
  show ?thesis
  proof
    assume "reservations (snd (checkOut db now caller sid notesArg)) = reservations db"
    from Reservation_findById_cong [OF this, of rid]
    have "Reservation_findById (handle now req db) rid = Some r"
      using found CheckOut by simp
    then show ?thesis by (cases "status r") simp_all
  next
    assume "\<exists>r0 r'. Reservation_findById db (reservation_id r') = Some r0
         \<and> reservations (snd (checkOut db now caller sid notesArg)) =
             reservations (Reservation_save r' db)
         \<and> status r' = Completed"
    then obtain r0 r' where r0: "Reservation_findById db (reservation_id r') = Some r0"
      and sv: "reservations (snd (checkOut db now caller sid notesArg)) =
             reservations (Reservation_save r' db)"
      and st: "status r' = Completed"
      by blast
    have f: "Reservation_findById (handle now req db) rid =
               Some (if rid = reservation_id r' then r' else r)"
      using Reservation_findById_save_any [OF found refl, of r']
        Reservation_findById_cong [OF sv, of rid] CheckOut
      by simp
    show ?thesis using f st CheckOut by (cases "status r") auto
  qed
qed

theorem status_transitions_witness:
  "map_option status
     (Reservation_findById (handle 5 (CancelReservation example_user 1 []) example_booked) 1) =
     Some Cancelled
   \<and> map_option status
       (Reservation_findById (handle 91000 (CheckOut example_user 1 []) example_checked_in) 1) =
     Some Completed
   \<and> map_option status
       (Reservation_findById
          (handle 5 (UpdateReservation example_user 1 (example_patch\<lparr>patch_notes := ''late''\<rparr>))
             example_two) 1) =
     Some Completed"
proof -
  have h1: "Reservation_findById example_booked 1 = Some example_reservation"
    by (simp add: example_defs handler_defs)
  have h2: "Reservation_findById example_checked_in 1 = Some example_reservation"
    by (simp add: example_defs handler_defs)
  have h3: "Reservation_findById example_two 1 = Some (example_reservation\<lparr>status := Completed\<rparr>)"
    by (simp add: example_defs handler_defs)
  have e: "map_option status
     (Reservation_findById (handle 5 (CancelReservation example_user 1 []) example_booked) 1) =
     Some Cancelled"
    "map_option status
       (Reservation_findById (handle 91000 (CheckOut example_user 1 []) example_checked_in) 1) =
     Some Completed"
    by (simp_all add: example_defs handler_defs reservation_defs)
  have s: "status example_reservation = Pending"
    "status (example_reservation\<lparr>status := Completed\<rparr>) = Completed"
    by (simp_all add: example_defs)
  from status_transitions [OF h3, of 5
      "UpdateReservation example_user 1 (example_patch\<lparr>patch_notes := ''late''\<rparr>)"]
  have c: "map_option status
       (Reservation_findById
          (handle 5 (UpdateReservation example_user 1 (example_patch\<lparr>patch_notes := ''late''\<rparr>))
             example_two) 1) =
     Some Completed"
    by (auto simp: s example_patch_def)
  from status_transitions [OF h1, of 5 "CancelReservation example_user 1 []"]
    status_transitions [OF h2, of 91000 "CheckOut example_user 1 []"] e c
  show ?thesis by blast
qed

text \<open>
  Completion does not need a confirmation: the check-out of the sign-in of the example
  takes its reservation from pending to completed.
\<close>

theorem status_transitions_counterexample:
  "map_option status (Reservation_findById example_checked_in 1) = Some Pending
   \<and> map_option status
       (Reservation_findById (handle 91000 (CheckOut example_user 1 []) example_checked_in) 1) =
     Some Completed"
  by (simp add: example_defs handler_defs)

section \<open>Double booking\<close>

text \<open>
  Every request other than such an update preserves the invariant, and so does every
  sequence of requests without one, from any database that satisfies it.
\<close>

lemma clash_sym: "clash a b = clash b a"
  by (auto simp: clash_def overlap_def)

lemma no_overlap_iff:
  "distinct (map reservation_id xs) \<Longrightarrow>
   no_overlap xs \<longleftrightarrow>
     (\<forall>a\<in>set xs. \<forall>b\<in>set xs. reservation_id a \<noteq> reservation_id b \<longrightarrow> \<not> clash a b)"
proof (induction xs)
  case Nil
  then show ?case by simp
next
  case (Cons x xs)
  have d: "distinct (map reservation_id xs)" and n: "\<forall>b\<in>set xs. reservation_id b \<noteq> reservation_id x"
    using Cons.prems by (auto simp: image_iff)
  have "no_overlap (x # xs) \<longleftrightarrow> (\<forall>b\<in>set xs. \<not> clash x b) \<and> no_overlap xs"
    by (simp add: list_all_iff)
  also have "\<dots> \<longleftrightarrow> (\<forall>b\<in>set xs. \<not> clash x b)
      \<and> (\<forall>a\<in>set xs. \<forall>b\<in>set xs. reservation_id a \<noteq> reservation_id b \<longrightarrow> \<not> clash a b)"
    using Cons.IH [OF d] by simp
  also have "\<dots> \<longleftrightarrow> (\<forall>a\<in>set (x # xs). \<forall>b\<in>set (x # xs).
      reservation_id a \<noteq> reservation_id b \<longrightarrow> \<not> clash a b)"
    using n clash_sym by auto
  finally show ?case .
qed

lemma no_double_booking_iff:
  assumes "distinct (map reservation_id (reservations db))"
  shows "no_double_booking db \<longleftrightarrow>
     (\<forall>a\<in>set (reservations db). \<forall>b\<in>set (reservations db).
        is_active a \<and> is_active b \<and> reservation_id a \<noteq> reservation_id b \<longrightarrow> \<not> clash a b)"
proof -
  have "distinct (map reservation_id (filter is_active (reservations db)))"
    using assms by (rule distinct_map_filter)
  from no_overlap_iff [OF this] show ?thesis
    by (auto simp: no_double_booking_def)
qed

lemma no_conflict_no_clash:
  assumes "\<not> checkBookingConflict db (room a) (reservationDate a) (startTime a) (endTime a) ex"
    and "b \<in> set (reservations db)" and "is_active b"
    and "\<forall>x. ex = Some x \<longrightarrow> reservation_id b \<noteq> x"
  shows "\<not> clash a b"
  using assms
  by (auto simp: checkBookingConflict_def conflict_loop_iff conflict_query_def clash_def
        overlap_def is_active_def split: option.splits)

lemma booking_invariant_cong:
  "reservations a = reservations b \<Longrightarrow> booking_invariant a = booking_invariant b"
  by (simp add: booking_invariant_def no_double_booking_def)

lemma Reservation_findById_mem:
  "Reservation_findById db i = Some r \<Longrightarrow> r \<in> set (reservations db)"
  by (auto simp: Reservation_findById_def find_Some_iff)

lemma map_id_replace: "map f (map (\<lambda>x. if f x = f r then r else x) xs) = map f xs"
  by (induction xs) auto

lemma save_preserves:
  assumes inv: "booking_invariant db"
    and r0: "Reservation_findById db rid0 = Some r0"
    and i: "reservation_id r3 = rid0"
    and ok: "is_active r3 \<Longrightarrow>
             \<forall>b\<in>set (reservations db). is_active b \<and> reservation_id b \<noteq> rid0 \<longrightarrow> \<not> clash r3 b"
  shows "booking_invariant (Reservation_save r3 db)"
proof -
  let ?f = "\<lambda>x. if reservation_id x = reservation_id r3 then r3 else x"
  have d: "distinct (map reservation_id (reservations db))"
    using inv by (simp add: booking_invariant_def)
  have "map reservation_id (reservations (Reservation_save r3 db)) =
          map reservation_id (reservations db)"
    by (simp add: Reservation_save_def map_id_replace del: map_map)
  then have d': "distinct (map reservation_id (reservations (Reservation_save r3 db)))"
    using d by (simp only:)
  have old: "\<forall>a\<in>set (reservations db). \<forall>b\<in>set (reservations db).
        is_active a \<and> is_active b \<and> reservation_id a \<noteq> reservation_id b \<longrightarrow> \<not> clash a b"
    using inv no_double_booking_iff [OF d] by (simp add: booking_invariant_def)
  have new: "\<not> clash a b"
    if a: "a \<in> set (reservations (Reservation_save r3 db))"
      and b: "b \<in> set (reservations (Reservation_save r3 db))"
      and act: "is_active a" "is_active b" and ne: "reservation_id a \<noteq> reservation_id b" for a b
  proof -
    from a obtain a0 where a0: "a0 \<in> set (reservations db)" "a = ?f a0"
      by (auto simp: Reservation_save_def)
    from b obtain b0 where b0: "b0 \<in> set (reservations db)" "b = ?f b0"
      by (auto simp: Reservation_save_def)
    show ?thesis
    proof (cases "reservation_id a0 = rid0")
      case True
      then have ar: "a = r3" using a0 i by simp
      have "reservation_id b0 \<noteq> rid0" using ne ar b0 i by auto
      then have "b = b0" using b0 i by simp
      then show ?thesis using ok ar act b0(1) \<open>reservation_id b0 \<noteq> rid0\<close> by auto
    next
      case False
      then have aa: "a = a0" using a0 i by simp
      show ?thesis
      proof (cases "reservation_id b0 = rid0")
        case True
        then have br: "b = r3" using b0 i by simp
        have "\<not> clash r3 a0" using ok br act aa a0(1) False by auto
        then show ?thesis using aa br clash_sym by simp
      next
        case False
        then have "b = b0" using b0 i by simp
        then show ?thesis using old aa a0(1) b0(1) act ne by auto
      qed
    qed
  qed
  show ?thesis
    using d' new no_double_booking_iff [OF d'] by (auto simp: booking_invariant_def)
qed

lemma createReservation_new:
  "snd (createReservation db caller body) = db
   \<or> (\<exists>new. snd (createReservation db caller body) =
               db\<lparr>reservations := reservations db @ [new]\<rparr>
         \<and> reservation_id new = fresh_id (map reservation_id (reservations db))
         \<and> \<not> checkBookingConflict db (room new) (reservationDate new) (startTime new)
               (endTime new) None)"
  by (auto simp: createReservation_def Let_def split: option.splits)

lemma create_preserves:
  assumes inv: "booking_invariant db"
  shows "booking_invariant (snd (createReservation db caller body))"
proof -
  from createReservation_new [of db caller body]
  show ?thesis
  proof
    assume "snd (createReservation db caller body) = db"
    then show ?thesis using inv by simp
  next
    assume "\<exists>new. snd (createReservation db caller body) =
               db\<lparr>reservations := reservations db @ [new]\<rparr>
         \<and> reservation_id new = fresh_id (map reservation_id (reservations db))
         \<and> \<not> checkBookingConflict db (room new) (reservationDate new) (startTime new)
               (endTime new) None"
    then obtain new where db': "snd (createReservation db caller body) =
               db\<lparr>reservations := reservations db @ [new]\<rparr>"
      and fresh: "reservation_id new = fresh_id (map reservation_id (reservations db))"
      and free: "\<not> checkBookingConflict db (room new) (reservationDate new) (startTime new)
               (endTime new) None"
      by blast
    have d: "distinct (map reservation_id (reservations db))"
      using inv by (simp add: booking_invariant_def)
    have nin: "reservation_id new \<notin> set (map reservation_id (reservations db))"
      using fresh fresh_id_notin [of "map reservation_id (reservations db)"] by simp
    have d': "distinct (map reservation_id (reservations db @ [new]))"
      using d nin by simp
    have old: "\<forall>a\<in>set (reservations db). \<forall>b\<in>set (reservations db).
        is_active a \<and> is_active b \<and> reservation_id a \<noteq> reservation_id b \<longrightarrow> \<not> clash a b"
      using inv no_double_booking_iff [OF d] by (simp add: booking_invariant_def)
    have nc: "\<not> clash new b" if "b \<in> set (reservations db)" "is_active b" for b
      using no_conflict_no_clash [OF free that] by simp
    have "\<forall>a\<in>set (reservations db @ [new]). \<forall>b\<in>set (reservations db @ [new]).
        is_active a \<and> is_active b \<and> reservation_id a \<noteq> reservation_id b \<longrightarrow> \<not> clash a b"
      using old nc clash_sym by auto
    then have "no_double_booking (db\<lparr>reservations := reservations db @ [new]\<rparr>)"
      using no_double_booking_iff [of "db\<lparr>reservations := reservations db @ [new]\<rparr>"] d'
      by simp
    then show ?thesis using db' d' by (simp add: booking_invariant_def)
  qed
qed

lemma update_times_facts:
  assumes "update_times db r0 patch = Inr r1"
  shows "room r1 = room r0 \<and> reservationDate r1 = reservationDate r0 \<and> status r1 = status r0
     \<and> (if truthy_str (patch_startTime patch) \<or> truthy_str (patch_endTime patch)
         then \<not> checkBookingConflict db (room r0) (reservationDate r0) (startTime r1) (endTime r1)
                 (Some (reservation_id r0))
         else startTime r1 = startTime r0 \<and> endTime r1 = endTime r0)"
  using assms by (auto simp: update_times_def Let_def split: if_splits)

lemma update_people_facts:
  assumes "update_people db r1 patch = Inr r2"
  shows "room r2 = room r1 \<and> reservationDate r2 = reservationDate r1 \<and> status r2 = status r1
     \<and> startTime r2 = startTime r1 \<and> endTime r2 = endTime r1"
  using assms by (auto simp: update_people_def split: if_splits option.splits)

lemma update_notes_status_facts:
  "room (update_notes_status r2 patch) = room r2
   \<and> reservationDate (update_notes_status r2 patch) = reservationDate r2
   \<and> startTime (update_notes_status r2 patch) = startTime r2
   \<and> endTime (update_notes_status r2 patch) = endTime r2
   \<and> (is_active (update_notes_status r2 patch) \<longrightarrow>
        is_active r2 \<or> patch_status patch = ''confirmed'')"
  by (auto simp: update_notes_status_def Let_def is_active_def)

lemma clash_same_slot:
  "room a = room a' \<Longrightarrow> reservationDate a = reservationDate a' \<Longrightarrow>
   startTime a = startTime a' \<Longrightarrow> endTime a = endTime a' \<Longrightarrow> clash a b = clash a' b"
  by (simp add: clash_def overlap_def)

lemma update_preserves:
  assumes inv: "booking_invariant db"
    and nr: "\<not> revives db (UpdateReservation caller rid0 patch)"
  shows "booking_invariant (snd (updateReservation db caller rid0 patch))"
proof (cases "snd (updateReservation db caller rid0 patch) = db")
  case True
  then show ?thesis using inv by simp
next
  case False
  then obtain r0 where r0: "Reservation_findById db rid0 = Some r0"
    by (cases "Reservation_findById db rid0") (auto simp: updateReservation_def)
  from False r0 obtain r1 r2 where
    t: "update_times db r0 patch = Inr r1"
    and p: "update_people db r1 patch = Inr r2"
    and s: "snd (updateReservation db caller rid0 patch) =
              Reservation_save (update_notes_status r2 patch) db"
    by (auto simp: updateReservation_def Let_def split: if_splits sum.splits)
  define r3 where "r3 = update_notes_status r2 patch"
  have rid: "reservation_id r0 = rid0" using r0 by (rule Reservation_findById_id)
  have i: "reservation_id r3 = rid0"
    using update_ids(1) [OF t] update_ids(2) [OF p] rid by (simp add: r3_def update_ids(3))
  have d: "distinct (map reservation_id (reservations db))"
    using inv by (simp add: booking_invariant_def)
  have old: "\<forall>a\<in>set (reservations db). \<forall>b\<in>set (reservations db).
      is_active a \<and> is_active b \<and> reservation_id a \<noteq> reservation_id b \<longrightarrow> \<not> clash a b"
    using inv no_double_booking_iff [OF d] by (simp add: booking_invariant_def)
  note ft = update_times_facts [OF t]
  note fp = update_people_facts [OF p]
  note fn = update_notes_status_facts [of r2 patch]
  have slot: "room r3 = room r0" "reservationDate r3 = reservationDate r0"
    "startTime r3 = startTime r1" "endTime r3 = endTime r1"
    using ft fp fn by (simp_all add: r3_def)
  have ok: "\<forall>b\<in>set (reservations db). is_active b \<and> reservation_id b \<noteq> rid0 \<longrightarrow> \<not> clash r3 b"
    if act: "is_active r3"
  proof (cases "truthy_str (patch_startTime patch) \<or> truthy_str (patch_endTime patch)")
    case True
    then have "\<not> checkBookingConflict db (room r3) (reservationDate r3) (startTime r3) (endTime r3)
                 (Some rid0)"
      using ft slot rid by simp
    from no_conflict_no_clash [OF this] show ?thesis by simp
  next
    case False
    then have same: "startTime r3 = startTime r0" "endTime r3 = endTime r0"
      using ft slot by simp_all
    have "is_active r2 \<or> patch_status patch = ''confirmed''"
      using act fn by (simp add: r3_def)
    moreover have "is_active r2 = is_active r0"
      using ft fp by (simp add: is_active_def)
    ultimately have a0: "is_active r0"
      using nr r0 False by auto
    have m: "r0 \<in> set (reservations db)" using r0 by (rule Reservation_findById_mem)
    have "\<not> clash r0 b" if "b \<in> set (reservations db)" "is_active b" "reservation_id b \<noteq> rid0" for b
      using old m that a0 rid by auto
    then show ?thesis
      using clash_same_slot [OF slot(1,2) same] by auto
  qed
  have "booking_invariant (Reservation_save r3 db)"
    by (rule save_preserves [OF inv r0 i ok])
  then show ?thesis using s by (simp add: r3_def)
qed

lemma inactive_save_preserves:
  assumes "booking_invariant db" and "Reservation_findById db (reservation_id r') = Some r0"
    and "\<not> is_active r'"
  shows "booking_invariant (Reservation_save r' db)"
  by (rule save_preserves [OF assms(1,2) refl]) (simp add: assms(3))

lemma booking_invariant_preserved:
  assumes inv: "booking_invariant db" and nr: "\<not> revives db req"
  shows "booking_invariant (handle now req db)"
proof (cases req)
  case (CreateReservation caller body)
  then show ?thesis using create_preserves [OF inv] by simp
next
  case (UpdateReservation caller rid0 patch)
  then show ?thesis using update_preserves [OF inv] nr by simp
next
  case (CancelReservation caller rid0 reason)
  from cancelReservation_db [of db now caller rid0 reason]
  show ?thesis
  proof
    assume "snd (cancelReservation db now caller rid0 reason) = db"
    then show ?thesis using inv CancelReservation by simp
  next
    assume "\<exists>r0 r'. Reservation_findById db rid0 = Some r0
         \<and> snd (cancelReservation db now caller rid0 reason) = Reservation_save r' db
         \<and> reservation_id r' = rid0
         \<and> (status r0 = Pending \<or> status r0 = Confirmed) \<and> status r' = Cancelled"
    then obtain r0 r' where "Reservation_findById db (reservation_id r') = Some r0"
      and sv: "snd (cancelReservation db now caller rid0 reason) = Reservation_save r' db"
      and "\<not> is_active r'"
      by (auto simp: is_active_def)
    then show ?thesis
      using inactive_save_preserves [OF inv] CancelReservation by simp
  qed
next
  case (CheckIn caller reservation roomArg buildingArg notesArg)
  then show ?thesis
    using inv booking_invariant_cong [OF checkIn_reservations
        [of db now caller reservation roomArg buildingArg notesArg]]
    by simp
next
  case (CheckOut caller sid notesArg)
  from checkOut_reservations [of db now caller sid notesArg]
  show ?thesis
  proof
    assume "reservations (snd (checkOut db now caller sid notesArg)) = reservations db"
    from booking_invariant_cong [OF this] show ?thesis using inv CheckOut by simp
  next
    assume "\<exists>r0 r'. Reservation_findById db (reservation_id r') = Some r0
         \<and> reservations (snd (checkOut db now caller sid notesArg)) =
             reservations (Reservation_save r' db)
         \<and> status r' = Completed"
    then obtain r0 r' where f: "Reservation_findById db (reservation_id r') = Some r0"
      and sv: "reservations (snd (checkOut db now caller sid notesArg)) =
             reservations (Reservation_save r' db)"
      and na: "\<not> is_active r'"
      by (auto simp: is_active_def)
    from booking_invariant_cong [OF sv] inactive_save_preserves [OF inv f na]
    show ?thesis using CheckOut by simp
  qed
qed

lemma booking_invariant_run:
  "booking_invariant db \<Longrightarrow> never_revives reqs db \<Longrightarrow> booking_invariant (run reqs db)"
proof (induction reqs arbitrary: db)
  case Nil
  then show ?case by simp
next
  case (Cons q reqs)
  obtain now req where q: "q = (now, req)" by (cases q)
  have "booking_invariant (handle now req db)"
    using Cons.prems q by (simp add: booking_invariant_preserved)
  then show ?case using Cons.IH Cons.prems q by simp
qed

text \<open>
  C1. The invariant holds after the reservation of the example is cancelled and the room
  is booked again for the same time. The update of the cancelled reservation with the
  status confirmed and no time is then answered with success, without a run of the
  conflict checker, and the database holds two active reservations of the room from
  14:00 to 16:00 on the same date.
\<close>

theorem double_booking_after_reconfirm:
  "booking_invariant example_rebooked
   \<and> revives example_rebooked
         (UpdateReservation example_user 1 (example_patch\<lparr>patch_status := ''confirmed''\<rparr>))
   \<and> fst (updateReservation example_rebooked example_user 1
            (example_patch\<lparr>patch_status := ''confirmed''\<rparr>)) =
       Inr (example_reservation\<lparr>status := Confirmed, cancelReason := Some [],
              cancelledAt := Some 5, cancelledBy := Some 7\<rparr>)
   \<and> map reservation_id (filter is_active (reservations example_revived)) = [1, 2]
   \<and> \<not> no_double_booking example_revived"
  by (simp add: example_cancelled_def example_rebooked_def example_revived_def
        booking_invariant_def no_double_booking_def is_active_def clash_def overlap_def
        example_defs handler_defs reservation_defs)

end
